theory Spec2Isabelle
  imports Main
begin

section \<open>Solidity basics: addresses, reverts, checked arithmetic\<close>

text \<open>
  An address is a number; \<open>address(0)\<close> is \<open>0\<close>. A \<open>uint256\<close> is a natural number
  below \<open>2 ^ 256\<close>. The contracts are compiled with Solidity 0.8, so every \<open>+\<close>,
  \<open>-\<close>, \<open>*\<close> and \<open>/\<close> outside an \<open>unchecked\<close> block reverts with a panic instead of
  wrapping around. A reverted call leaves no trace in storage, so a call is a function
  from the storage before it to either an error or the storage after it.
\<close>

type_synonym address = nat

datatype error = Revert string | Panic_Overflow | Panic_DivisionByZero

definition UINT256_LIMIT :: nat where
  "UINT256_LIMIT = 2 ^ 256"

definition then_do :: "error + 'a \<Rightarrow> ('a \<Rightarrow> error + 'b) \<Rightarrow> error + 'b" where
  "then_do m f = (case m of Inl e \<Rightarrow> Inl e | Inr x \<Rightarrow> f x)"

definition checked_add :: "nat \<Rightarrow> nat \<Rightarrow> error + nat" where
  "checked_add a b = (if a + b < UINT256_LIMIT then Inr (a + b) else Inl Panic_Overflow)"

definition checked_sub :: "nat \<Rightarrow> nat \<Rightarrow> error + nat" where
  "checked_sub a b = (if b \<le> a then Inr (a - b) else Inl Panic_Overflow)"

definition checked_mul :: "nat \<Rightarrow> nat \<Rightarrow> error + nat" where
  "checked_mul a b = (if a * b < UINT256_LIMIT then Inr (a * b) else Inl Panic_Overflow)"

definition checked_div :: "nat \<Rightarrow> nat \<Rightarrow> error + nat" where
  "checked_div a b = (if b = 0 then Inl Panic_DivisionByZero else Inr (a div b))"

text \<open>The storage a caller sees after a call: unchanged when the call reverted.\<close>

definition storage_after :: "'s \<Rightarrow> error + 's \<Rightarrow> 's" where
  "storage_after s r = (case r of Inl e \<Rightarrow> s | Inr s' \<Rightarrow> s')"

section \<open>HRMToken (src/contracts/HRMToken.sol)\<close>

text \<open>
  HRMToken inherits ERC20, ERC20Burnable, Ownable and Pausable from the OpenZeppelin
  Contracts 4.x library that the source imports (the \<open>security/Pausable.sol\<close> path,
  the \<open>Counters\<close> utility and the \<open>_beforeTokenTransfer\<close> hook fix the major version).
  The inherited functions below are transcribed from that library; \<open>mint\<close>, \<open>pause\<close>,
  \<open>unpause\<close> and the override of \<open>_beforeTokenTransfer\<close> are the contract's own.
  The library keeps the sum of all balances equal to \<open>_totalSupply\<close>, and \<open>mint\<close> keeps
  that below \<open>MAX_SUPPLY\<close>, so the balance updates the library places in \<open>unchecked\<close>
  blocks never wrap; they are plain additions and subtractions here.
\<close>

record HRMToken =
  balances :: "address \<Rightarrow> nat"
  allowances :: "address \<Rightarrow> address \<Rightarrow> nat"
  totalSupply :: nat
  paused :: bool
  token_owner :: address

definition MAX_SUPPLY :: nat where
  "MAX_SUPPLY = 1000000000 * 10 ^ 18"

text \<open>Pausable: the modifiers \<open>whenNotPaused\<close> and \<open>whenPaused\<close>, and Ownable's \<open>onlyOwner\<close>.\<close>

definition whenNotPaused :: "HRMToken \<Rightarrow> error + unit" where
  "whenNotPaused t = (if paused t then Inl (Revert ''Pausable: paused'') else Inr ())"

definition whenPaused :: "HRMToken \<Rightarrow> error + unit" where
  "whenPaused t = (if paused t then Inr () else Inl (Revert ''Pausable: not paused''))"

definition pause :: "address \<Rightarrow> HRMToken \<Rightarrow> error + HRMToken" where
  "pause sender t =
     (if sender \<noteq> token_owner t then Inl (Revert ''Ownable: caller is not the owner'')
      else then_do (whenNotPaused t) (\<lambda>_. Inr (t\<lparr>paused := True\<rparr>)))"

definition unpause :: "address \<Rightarrow> HRMToken \<Rightarrow> error + HRMToken" where
  "unpause sender t =
     (if sender \<noteq> token_owner t then Inl (Revert ''Ownable: caller is not the owner'')
      else then_do (whenPaused t) (\<lambda>_. Inr (t\<lparr>paused := False\<rparr>)))"

text \<open>
  HRMToken's override: the hook carries the modifier \<open>whenNotPaused\<close> and then calls the
  library's hook, which is empty.
\<close>

definition beforeTokenTransfer :: "address \<Rightarrow> address \<Rightarrow> nat \<Rightarrow> HRMToken \<Rightarrow> error + unit" where
  "beforeTokenTransfer from to amount t = whenNotPaused t"

text \<open>ERC20's internal \<open>_transfer\<close>, \<open>_mint\<close>, \<open>_burn\<close>, \<open>_approve\<close> and \<open>_spendAllowance\<close>.\<close>

definition erc20_transfer :: "address \<Rightarrow> address \<Rightarrow> nat \<Rightarrow> HRMToken \<Rightarrow> error + HRMToken" where
  "erc20_transfer from to amount t =
     (if from = 0 then Inl (Revert ''ERC20: transfer from the zero address'')
      else if to = 0 then Inl (Revert ''ERC20: transfer to the zero address'')
      else then_do (beforeTokenTransfer from to amount t) (\<lambda>_.
        let fromBalance = balances t from in
        if \<not> fromBalance \<ge> amount then Inl (Revert ''ERC20: transfer amount exceeds balance'')
        else
          let b1 = (balances t)(from := fromBalance - amount);
              b2 = b1(to := b1 to + amount)
          in Inr (t\<lparr>balances := b2\<rparr>)))"

definition erc20_mint :: "address \<Rightarrow> nat \<Rightarrow> HRMToken \<Rightarrow> error + HRMToken" where
  "erc20_mint account amount t =
     (if account = 0 then Inl (Revert ''ERC20: mint to the zero address'')
      else then_do (beforeTokenTransfer 0 account amount t) (\<lambda>_.
        then_do (checked_add (totalSupply t) amount) (\<lambda>supply.
          Inr (t\<lparr>totalSupply := supply,
                 balances := (balances t)(account := balances t account + amount)\<rparr>))))"

definition erc20_burn :: "address \<Rightarrow> nat \<Rightarrow> HRMToken \<Rightarrow> error + HRMToken" where
  "erc20_burn account amount t =
     (if account = 0 then Inl (Revert ''ERC20: burn from the zero address'')
      else then_do (beforeTokenTransfer account 0 amount t) (\<lambda>_.
        let accountBalance = balances t account in
        if \<not> accountBalance \<ge> amount then Inl (Revert ''ERC20: burn amount exceeds balance'')
        else Inr (t\<lparr>balances := (balances t)(account := accountBalance - amount),
                    totalSupply := totalSupply t - amount\<rparr>)))"

definition erc20_approve :: "address \<Rightarrow> address \<Rightarrow> nat \<Rightarrow> HRMToken \<Rightarrow> error + HRMToken" where
  "erc20_approve owner spender amount t =
     (if owner = 0 then Inl (Revert ''ERC20: approve from the zero address'')
      else if spender = 0 then Inl (Revert ''ERC20: approve to the zero address'')
      else Inr (t\<lparr>allowances := (allowances t)(owner := (allowances t owner)(spender := amount))\<rparr>))"

definition spendAllowance :: "address \<Rightarrow> address \<Rightarrow> nat \<Rightarrow> HRMToken \<Rightarrow> error + HRMToken" where
  "spendAllowance owner spender amount t =
     (let currentAllowance = allowances t owner spender in
      if currentAllowance \<noteq> UINT256_LIMIT - 1 then
        (if \<not> currentAllowance \<ge> amount then Inl (Revert ''ERC20: insufficient allowance'')
         else erc20_approve owner spender (currentAllowance - amount) t)
      else Inr t)"

text \<open>The external functions; \<open>sender\<close> is \<open>msg.sender\<close>.\<close>

definition transfer :: "address \<Rightarrow> address \<Rightarrow> nat \<Rightarrow> HRMToken \<Rightarrow> error + HRMToken" where
  "transfer sender to amount t = erc20_transfer sender to amount t"

definition transferFrom :: "address \<Rightarrow> address \<Rightarrow> address \<Rightarrow> nat \<Rightarrow> HRMToken \<Rightarrow> error + HRMToken" where
  "transferFrom sender from to amount t =
     then_do (spendAllowance from sender amount t) (\<lambda>t1. erc20_transfer from to amount t1)"

definition approve :: "address \<Rightarrow> address \<Rightarrow> nat \<Rightarrow> HRMToken \<Rightarrow> error + HRMToken" where
  "approve sender spender amount t = erc20_approve sender spender amount t"

definition mint :: "address \<Rightarrow> nat \<Rightarrow> HRMToken \<Rightarrow> error + HRMToken" where
  "mint to amount t =
     then_do (checked_add (totalSupply t) amount) (\<lambda>supply.
       if \<not> supply \<le> MAX_SUPPLY then Inl (Revert ''HRM: Max supply exceeded'')
       else erc20_mint to amount t)"

definition burn :: "address \<Rightarrow> nat \<Rightarrow> HRMToken \<Rightarrow> error + HRMToken" where
  "burn sender amount t = erc20_burn sender amount t"

section \<open>RendaGovernance (src/unnamed/part_001)\<close>

record Proposal =
  proposal_id :: nat
  title :: string
  description :: string
  proposer :: address
  votesFor :: nat
  votesAgainst :: nat
  startTime :: nat
  endTime :: nat
  executed :: bool
  passed :: bool

record Vote =
  hasVoted :: bool
  support :: bool
  votingPower :: nat

record RendaGovernance =
  proposalCount :: nat
  proposals :: "nat \<Rightarrow> Proposal"
  votes :: "nat \<Rightarrow> address \<Rightarrow> Vote"

definition VOTING_PERIOD :: nat where
  "VOTING_PERIOD = 7 * 86400"

definition MIN_VOTING_POWER :: nat where
  "MIN_VOTING_POWER = 100 * 10 ^ 18"

definition QUORUM_PERCENTAGE :: nat where
  "QUORUM_PERCENTAGE = 20"

text \<open>
  \<open>executeProposal\<close> reads \<open>hrmToken.totalSupply()\<close>; the token's storage \<open>t\<close> is an
  argument, as is \<open>block.timestamp\<close>.
\<close>

definition executeProposal :: "HRMToken \<Rightarrow> nat \<Rightarrow> nat \<Rightarrow> RendaGovernance \<Rightarrow> error + RendaGovernance" where
  "executeProposal t timestamp proposalId g =
     (if \<not> (proposalId > 0 \<and> proposalId \<le> proposalCount g) then Inl (Revert ''Invalid proposal ID'')
      else
        let proposal = proposals g proposalId in
        if \<not> timestamp > endTime proposal then Inl (Revert ''Voting period not ended'')
        else if \<not> \<not> executed proposal then Inl (Revert ''Proposal already executed'')
        else then_do (checked_add (votesFor proposal) (votesAgainst proposal)) (\<lambda>totalVotes.
          then_do (checked_mul (totalSupply t) QUORUM_PERCENTAGE) (\<lambda>scaled.
            let quorum = scaled div 100;
                passed' = (totalVotes \<ge> quorum \<and> votesFor proposal > votesAgainst proposal)
            in Inr (g\<lparr>proposals := (proposals g)
                      (proposalId := proposal\<lparr>executed := True, passed := passed'\<rparr>)\<rparr>))))"

text \<open>
  A governance storage with one proposal whose voting window ended at time 100, and a
  token with the given total supply.
\<close>

definition tallied_proposal :: "nat \<Rightarrow> nat \<Rightarrow> RendaGovernance" where
  "tallied_proposal for against =
     \<lparr>proposalCount = 1,
      proposals = (\<lambda>_. \<lparr>proposal_id = 0, title = [], description = [], proposer = 0,
                         votesFor = 0, votesAgainst = 0, startTime = 0, endTime = 0,
                         executed = False, passed = False\<rparr>)
        (1 := \<lparr>proposal_id = 1, title = ''t'', description = ''d'', proposer = 7,
               votesFor = for, votesAgainst = against, startTime = 0, endTime = 100,
               executed = False, passed = False\<rparr>),
      votes = (\<lambda>_ _. \<lparr>hasVoted = False, support = False, votingPower = 0\<rparr>)\<rparr>"

definition token_with_supply :: "nat \<Rightarrow> HRMToken" where
  "token_with_supply n =
     \<lparr>balances = (\<lambda>_. 0)(1 := n), allowances = (\<lambda>_ _. 0), totalSupply = n,
      paused = False, token_owner = 1\<rparr>"

section \<open>DisasterManagement (src/contracts/DisasterManagement.sol)\<close>

datatype DisasterType = FLOOD | FIRE | EARTHQUAKE | HURRICANE | OTHER

datatype ClaimStatus = PENDING | APPROVED | REJECTED | PAID

record DisasterReport =
  report_id :: nat
  report_propertyId :: nat
  disasterType :: DisasterType
  report_description :: string
  reportedAt :: nat
  reporter :: address
  verified :: bool

record InsuranceClaim =
  claim_id :: nat
  claim_propertyId :: nat
  disasterReportId :: nat
  claimAmount :: nat
  status :: ClaimStatus
  evidence :: string
  claimedAt :: nat
  claimant :: address
  approvedAmount :: nat

text \<open>
  The storage of DisasterManagement, together with the storage of the token contract
  it calls (\<open>dm_hrmToken\<close>), its Ownable owner and its own address \<open>address(this)\<close>.
\<close>

record DisasterManagement =
  dm_hrmToken :: HRMToken
  dm_owner :: address
  dm_this :: address
  disasterReportCount :: nat
  insuranceClaimCount :: nat
  insuranceFund :: nat
  disasterReports :: "nat \<Rightarrow> DisasterReport"
  insuranceClaims :: "nat \<Rightarrow> InsuranceClaim"
  propertyDisasters :: "nat \<Rightarrow> nat list"
  authorizedReporters :: "address \<Rightarrow> bool"

text \<open>
  \<open>processClaim\<close>. The call \<open>hrmToken.transfer(claim.claimant, approvedAmount)\<close> is made by
  this contract, so the token sees \<open>address(this)\<close> as the sender; when the token reverts,
  the whole call reverts.
\<close>

definition processClaim ::
  "address \<Rightarrow> nat \<Rightarrow> ClaimStatus \<Rightarrow> nat \<Rightarrow> DisasterManagement \<Rightarrow> error + DisasterManagement" where
  "processClaim sender claimId status' approvedAmount' d =
     (if sender \<noteq> dm_owner d then Inl (Revert ''Ownable: caller is not the owner'')
      else if \<not> (claimId > 0 \<and> claimId \<le> insuranceClaimCount d) then Inl (Revert ''Invalid claim ID'')
      else
        let claim = insuranceClaims d claimId in
        if \<not> status claim = PENDING then Inl (Revert ''Claim already processed'')
        else
          let claim1 = claim\<lparr>status := status', approvedAmount := approvedAmount'\<rparr>;
              d1 = d\<lparr>insuranceClaims := (insuranceClaims d)(claimId := claim1)\<rparr>
          in
          if status' = APPROVED \<and> approvedAmount' > 0 then
            (if \<not> insuranceFund d1 \<ge> approvedAmount' then Inl (Revert ''Insufficient insurance fund'')
             else then_do (transfer (dm_this d1) (claimant claim1) approvedAmount' (dm_hrmToken d1)) (\<lambda>t1.
               then_do (checked_sub (insuranceFund d1) approvedAmount') (\<lambda>fund.
                 Inr (d1\<lparr>dm_hrmToken := t1, insuranceFund := fund,
                         insuranceClaims := (insuranceClaims d1)(claimId := claim1\<lparr>status := PAID\<rparr>)\<rparr>))))
          else Inr d1)"

section \<open>PropertyToken (src/contracts/PropertyToken.sol)\<close>

datatype PropertyType = Residential | Commercial | Industrial | Mixed

datatype RiskLevel = Low | Medium | High

record Property =
  property_id :: nat
  metadataURI :: string
  totalValue :: nat
  totalTokens :: nat
  availableTokens :: nat
  tokenPrice :: nat
  propertyOwner :: address
  isActive :: bool
  isVerified :: bool
  createdAt :: nat
  propertyType :: PropertyType
  riskLevel :: RiskLevel

record Investment =
  investor :: address
  tokensOwned :: nat
  investmentAmount :: nat
  purchaseDate :: nat

record SellOrder =
  order_id :: nat
  order_propertyId :: nat
  seller :: address
  tokensForSale :: nat
  pricePerToken :: nat
  totalPrice :: nat
  order_isActive :: bool
  order_createdAt :: nat
  expiresAt :: nat

text \<open>
  The storage of PropertyToken. \<open>hrmToken\<close> is the storage of the token contract it
  calls, \<open>contract_owner\<close> is Ownable's owner, \<open>this\<close> is \<open>address(this)\<close>, and
  \<open>nft_owners\<close> and \<open>tokenURIs\<close> are the ERC721 owner and URI tables written by
  \<open>_safeMint\<close> and \<open>_setTokenURI\<close>. ReentrancyGuard's status word is not represented:
  the token never calls back, so it reads "not entered" at the start of every call.
\<close>

record PropertyToken =
  tokenIdCounter :: nat
  hrmToken :: HRMToken
  properties :: "nat \<Rightarrow> Property"
  investments :: "nat \<Rightarrow> address \<Rightarrow> Investment"
  propertyInvestors :: "nat \<Rightarrow> address list"
  investorProperties :: "address \<Rightarrow> nat list"
  platformFeePercent :: nat
  feeRecipient :: address
  sellOrders :: "nat \<Rightarrow> SellOrder"
  propertySellOrders :: "nat \<Rightarrow> nat list"
  userSellOrders :: "address \<Rightarrow> nat list"
  sellOrderCounter :: nat
  contract_owner :: address
  this :: address
  nft_owners :: "nat \<Rightarrow> address"
  tokenURIs :: "nat \<Rightarrow> string"

definition MIN_INVESTMENT :: nat where
  "MIN_INVESTMENT = 100 * 10 ^ 18"

text \<open>The value every mapping slot holds before it is written.\<close>

definition zero_Property :: Property where
  "zero_Property =
     \<lparr>property_id = 0, metadataURI = [], totalValue = 0, totalTokens = 0, availableTokens = 0,
      tokenPrice = 0, propertyOwner = 0, isActive = False, isVerified = False, createdAt = 0,
      propertyType = Residential, riskLevel = Low\<rparr>"

definition zero_Investment :: Investment where
  "zero_Investment = \<lparr>investor = 0, tokensOwned = 0, investmentAmount = 0, purchaseDate = 0\<rparr>"

definition zero_SellOrder :: SellOrder where
  "zero_SellOrder =
     \<lparr>order_id = 0, order_propertyId = 0, seller = 0, tokensForSale = 0, pricePerToken = 0,
      totalPrice = 0, order_isActive = False, order_createdAt = 0, expiresAt = 0\<rparr>"

text \<open>The constructor, run by \<open>deployer\<close> at address \<open>self\<close> against the token storage \<open>t\<close>.\<close>

definition constructor :: "address \<Rightarrow> address \<Rightarrow> HRMToken \<Rightarrow> address \<Rightarrow> PropertyToken" where
  "constructor deployer self t feeRecipient' =
     \<lparr>tokenIdCounter = 0, hrmToken = t, properties = (\<lambda>_. zero_Property),
      investments = (\<lambda>_ _. zero_Investment), propertyInvestors = (\<lambda>_. []),
      investorProperties = (\<lambda>_. []), platformFeePercent = 250, feeRecipient = feeRecipient',
      sellOrders = (\<lambda>_. zero_SellOrder), propertySellOrders = (\<lambda>_. []),
      userSellOrders = (\<lambda>_. []), sellOrderCounter = 0, contract_owner = deployer,
      this = self, nft_owners = (\<lambda>_. 0), tokenURIs = (\<lambda>_. [])\<rparr>"

text \<open>
  \<open>listProperty\<close>. Of ERC721's \<open>_safeMint\<close> and \<open>_setTokenURI\<close> the two requirements
  (a non-zero receiver, a token not minted before) and the two table writes are here;
  ERC721's per-owner token count, which no function of this contract reads, is not. The
  lister is taken to be an externally owned account, for which \<open>_safeMint\<close> makes no
  receiver callback.
\<close>

definition listProperty ::
  "address \<Rightarrow> nat \<Rightarrow> string \<Rightarrow> nat \<Rightarrow> nat \<Rightarrow> PropertyType \<Rightarrow> RiskLevel \<Rightarrow> PropertyToken
     \<Rightarrow> error + PropertyToken \<times> nat" where
  "listProperty sender timestamp uri totalValue' totalTokens' propertyType' riskLevel' s =
     (if \<not> totalValue' > 0 then Inl (Revert ''Invalid property value'')
      else if \<not> totalTokens' > 0 then Inl (Revert ''Invalid token amount'')
      else
        let propertyId = tokenIdCounter s in
        then_do (checked_div totalValue' totalTokens') (\<lambda>tokenPrice'.
          let p = \<lparr>property_id = propertyId, metadataURI = uri, totalValue = totalValue',
                   totalTokens = totalTokens', availableTokens = totalTokens',
                   tokenPrice = tokenPrice', propertyOwner = sender, isActive = False,
                   isVerified = False, createdAt = timestamp, propertyType = propertyType',
                   riskLevel = riskLevel'\<rparr>
          in
          if sender = 0 then Inl (Revert ''ERC721: mint to the zero address'')
          else if nft_owners s propertyId \<noteq> 0 then Inl (Revert ''ERC721: token already minted'')
          else Inr (s\<lparr>tokenIdCounter := tokenIdCounter s + 1,
                      properties := (properties s)(propertyId := p),
                      nft_owners := (nft_owners s)(propertyId := sender),
                      tokenURIs := (tokenURIs s)(propertyId := uri)\<rparr>, propertyId)))"

definition verifyProperty :: "address \<Rightarrow> nat \<Rightarrow> PropertyToken \<Rightarrow> error + PropertyToken" where
  "verifyProperty sender propertyId s =
     (if sender \<noteq> contract_owner s then Inl (Revert ''Ownable: caller is not the owner'')
      else if \<not> propertyId < tokenIdCounter s then Inl (Revert ''Property does not exist'')
      else Inr (s\<lparr>properties := (properties s)
                  (propertyId := (properties s propertyId)\<lparr>isVerified := True, isActive := True\<rparr>)\<rparr>))"

text \<open>
  The three token calls of a payment: \<open>transferFrom(msg.sender, address(this), cost)\<close>,
  \<open>transfer(feeRecipient, fee)\<close> and \<open>transfer(payee, netAmount)\<close>. \<open>purchaseTokens\<close>
  has these lines inline, with the property owner as payee; \<open>_processBuyOrderPayment\<close>
  has them after its own fee computation, with the seller as payee.
\<close>

definition token_payment ::
  "address \<Rightarrow> nat \<Rightarrow> nat \<Rightarrow> nat \<Rightarrow> address \<Rightarrow> PropertyToken \<Rightarrow> error + HRMToken" where
  "token_payment sender totalCost fee netAmount payee s =
     then_do (transferFrom (this s) sender (this s) totalCost (hrmToken s)) (\<lambda>t1.
       then_do (transfer (this s) (feeRecipient s) fee t1) (\<lambda>t2.
         transfer (this s) payee netAmount t2))"

definition processBuyOrderPayment :: "address \<Rightarrow> nat \<Rightarrow> address \<Rightarrow> PropertyToken \<Rightarrow> error + HRMToken" where
  "processBuyOrderPayment sender totalCost seller' s =
     then_do (checked_mul totalCost (platformFeePercent s)) (\<lambda>scaled.
       let fee = scaled div 10000 in
       then_do (checked_sub totalCost fee) (\<lambda>netAmount.
         token_payment sender totalCost fee netAmount seller' s))"

text \<open>
  The investment record of \<open>buyer\<close> after acquiring \<open>tokens\<close> shares for \<open>netAmount\<close>, and
  the two index lists, appended to when the record's \<open>investor\<close> field is still zero.
\<close>

definition credit_investment ::
  "nat \<Rightarrow> address \<Rightarrow> nat \<Rightarrow> nat \<Rightarrow> nat \<Rightarrow> PropertyToken \<Rightarrow> error + PropertyToken" where
  "credit_investment timestamp buyer propertyId tokens netAmount s =
     (let s1 = (if investor (investments s propertyId buyer) = 0
                then s\<lparr>propertyInvestors := (propertyInvestors s)
                         (propertyId := propertyInvestors s propertyId @ [buyer]),
                       investorProperties := (investorProperties s)
                         (buyer := investorProperties s buyer @ [propertyId])\<rparr>
                else s);
          held = investments s1 propertyId buyer
      in
      then_do (checked_add (tokensOwned held) tokens) (\<lambda>owned.
        then_do (checked_add (investmentAmount held) netAmount) (\<lambda>paid.
          Inr (s1\<lparr>investments := (investments s1)
                 (propertyId := (investments s1 propertyId)
                    (buyer := \<lparr>investor = buyer, tokensOwned = owned, investmentAmount = paid,
                               purchaseDate = timestamp\<rparr>))\<rparr>))))"

definition purchaseTokens :: "address \<Rightarrow> nat \<Rightarrow> nat \<Rightarrow> nat \<Rightarrow> PropertyToken \<Rightarrow> error + PropertyToken" where
  "purchaseTokens sender timestamp propertyId tokens s =
     (if \<not> propertyId < tokenIdCounter s then Inl (Revert ''Property does not exist'')
      else if \<not> isActive (properties s propertyId) then Inl (Revert ''Property not active'')
      else
        let property = properties s propertyId in
        if \<not> tokens > 0 then Inl (Revert ''Invalid token amount'')
        else if \<not> tokens \<le> availableTokens property then Inl (Revert ''Not enough tokens available'')
        else then_do (checked_mul tokens (tokenPrice property)) (\<lambda>cost.
          if \<not> cost \<ge> MIN_INVESTMENT then Inl (Revert ''Below minimum investment'')
          else if \<not> balances (hrmToken s) sender \<ge> cost then Inl (Revert ''Insufficient HRM balance'')
          else then_do (checked_mul cost (platformFeePercent s)) (\<lambda>scaled.
            let fee = scaled div 10000 in
            then_do (checked_sub cost fee) (\<lambda>netAmount.
              then_do (token_payment sender cost fee netAmount (propertyOwner property) s) (\<lambda>t3.
                then_do (credit_investment timestamp sender propertyId tokens netAmount
                           (s\<lparr>hrmToken := t3\<rparr>)) (\<lambda>s2.
                  then_do (checked_sub (availableTokens property) tokens) (\<lambda>avail.
                    Inr (s2\<lparr>properties := (properties s2)
                           (propertyId := (properties s2 propertyId)\<lparr>availableTokens := avail\<rparr>)\<rparr>))))))))"

text \<open>The loop of \<open>distributeRentalIncome\<close> over the copied investor array.\<close>

fun distribute_loop ::
  "address \<Rightarrow> (address \<Rightarrow> Investment) \<Rightarrow> nat \<Rightarrow> nat \<Rightarrow> address list \<Rightarrow> HRMToken \<Rightarrow> error + HRMToken" where
  "distribute_loop self holdings totalIncome totalDistributed [] t = Inr t"
| "distribute_loop self holdings totalIncome totalDistributed (a # rest) t =
     (let owned = tokensOwned (holdings a) in
      if owned > 0 then
        then_do (checked_mul totalIncome owned) (\<lambda>scaled.
          then_do (checked_div scaled totalDistributed) (\<lambda>share.
            then_do (transfer self a share t) (\<lambda>t1.
              distribute_loop self holdings totalIncome totalDistributed rest t1)))
      else distribute_loop self holdings totalIncome totalDistributed rest t)"

definition distributeRentalIncome :: "address \<Rightarrow> nat \<Rightarrow> nat \<Rightarrow> PropertyToken \<Rightarrow> error + PropertyToken" where
  "distributeRentalIncome sender propertyId totalIncome s =
     (if sender \<noteq> contract_owner s then Inl (Revert ''Ownable: caller is not the owner'')
      else if \<not> propertyId < tokenIdCounter s then Inl (Revert ''Property does not exist'')
      else
        let property = properties s propertyId in
        if \<not> totalIncome > 0 then Inl (Revert ''Invalid income amount'')
        else if \<not> balances (hrmToken s) (this s) \<ge> totalIncome
          then Inl (Revert ''Insufficient contract balance'')
        else
          let investors = propertyInvestors s propertyId in
          then_do (checked_sub (totalTokens property) (availableTokens property)) (\<lambda>totalDistributed.
            then_do (distribute_loop (this s) (investments s propertyId) totalIncome totalDistributed
                       investors (hrmToken s)) (\<lambda>t1.
              Inr (s\<lparr>hrmToken := t1\<rparr>))))"

definition setPlatformFee :: "address \<Rightarrow> nat \<Rightarrow> PropertyToken \<Rightarrow> error + PropertyToken" where
  "setPlatformFee sender newFeePercent s =
     (if sender \<noteq> contract_owner s then Inl (Revert ''Ownable: caller is not the owner'')
      else if \<not> newFeePercent \<le> 1000 then Inl (Revert ''Fee too high'')
      else Inr (s\<lparr>platformFeePercent := newFeePercent\<rparr>))"

definition setFeeRecipient :: "address \<Rightarrow> address \<Rightarrow> PropertyToken \<Rightarrow> error + PropertyToken" where
  "setFeeRecipient sender newRecipient s =
     (if sender \<noteq> contract_owner s then Inl (Revert ''Ownable: caller is not the owner'')
      else if \<not> newRecipient \<noteq> 0 then Inl (Revert ''Invalid address'')
      else Inr (s\<lparr>feeRecipient := newRecipient\<rparr>))"

definition createSellOrder ::
  "address \<Rightarrow> nat \<Rightarrow> nat \<Rightarrow> nat \<Rightarrow> nat \<Rightarrow> nat \<Rightarrow> PropertyToken \<Rightarrow> error + PropertyToken \<times> nat" where
  "createSellOrder sender timestamp propertyId tokensForSale' pricePerToken' durationDays s =
     (if \<not> propertyId < tokenIdCounter s then Inl (Revert ''Property does not exist'')
      else if \<not> tokensForSale' > 0 then Inl (Revert ''Invalid token amount'')
      else if \<not> pricePerToken' > 0 then Inl (Revert ''Invalid price'')
      else if \<not> (durationDays > 0 \<and> durationDays \<le> 90) then Inl (Revert ''Invalid duration'')
      else if \<not> tokensOwned (investments s propertyId sender) \<ge> tokensForSale'
        then Inl (Revert ''Insufficient tokens'')
      else
        let orderId = sellOrderCounter s in
        then_do (checked_add (sellOrderCounter s) 1) (\<lambda>counter.
          then_do (checked_mul tokensForSale' pricePerToken') (\<lambda>totalPrice'.
            then_do (checked_mul durationDays 86400) (\<lambda>duration.
              then_do (checked_add timestamp duration) (\<lambda>expiresAt'.
                Inr (s\<lparr>sellOrderCounter := counter,
                       sellOrders := (sellOrders s)(orderId :=
                         \<lparr>order_id = orderId, order_propertyId = propertyId, seller = sender,
                          tokensForSale = tokensForSale', pricePerToken = pricePerToken',
                          totalPrice = totalPrice', order_isActive = True,
                          order_createdAt = timestamp, expiresAt = expiresAt'\<rparr>),
                       propertySellOrders := (propertySellOrders s)
                         (propertyId := propertySellOrders s propertyId @ [orderId]),
                       userSellOrders := (userSellOrders s)
                         (sender := userSellOrders s sender @ [orderId])\<rparr>, orderId))))))"

definition updateBuyOrderInvestments ::
  "nat \<Rightarrow> nat \<Rightarrow> address \<Rightarrow> address \<Rightarrow> nat \<Rightarrow> nat \<Rightarrow> PropertyToken \<Rightarrow> error + PropertyToken" where
  "updateBuyOrderInvestments timestamp propertyId seller' buyer tokensToBuy totalCost s =
     then_do (checked_mul totalCost (platformFeePercent s)) (\<lambda>scaled.
       let fee = scaled div 10000 in
       then_do (checked_sub totalCost fee) (\<lambda>netAmount.
         then_do (checked_sub (tokensOwned (investments s propertyId seller')) tokensToBuy) (\<lambda>left.
           let s1 = s\<lparr>investments := (investments s)
                        (propertyId := (investments s propertyId)
                           (seller' := (investments s propertyId seller')\<lparr>tokensOwned := left\<rparr>))\<rparr>
           in credit_investment timestamp buyer propertyId tokensToBuy netAmount s1)))"

definition buyFromOrder :: "address \<Rightarrow> nat \<Rightarrow> nat \<Rightarrow> nat \<Rightarrow> PropertyToken \<Rightarrow> error + PropertyToken" where
  "buyFromOrder sender timestamp orderId tokensToBuy s =
     (let order = sellOrders s orderId in
      if \<not> order_isActive order then Inl (Revert ''Order not active'')
      else if \<not> timestamp \<le> expiresAt order then Inl (Revert ''Order expired'')
      else if \<not> (tokensToBuy > 0 \<and> tokensToBuy \<le> tokensForSale order) then Inl (Revert ''Invalid token amount'')
      else if \<not> sender \<noteq> seller order then Inl (Revert ''Cannot buy own order'')
      else if \<not> tokensOwned (investments s (order_propertyId order) (seller order)) \<ge> tokensToBuy
        then Inl (Revert ''Seller insufficient tokens'')
      else then_do (checked_mul tokensToBuy (pricePerToken order)) (\<lambda>totalCost.
        if \<not> balances (hrmToken s) sender \<ge> totalCost then Inl (Revert ''Insufficient HRM balance'')
        else then_do (processBuyOrderPayment sender totalCost (seller order) s) (\<lambda>t3.
          then_do (updateBuyOrderInvestments timestamp (order_propertyId order) (seller order)
                     sender tokensToBuy totalCost (s\<lparr>hrmToken := t3\<rparr>)) (\<lambda>s2.
            then_do (checked_sub (tokensForSale order) tokensToBuy) (\<lambda>left.
              let order1 = order\<lparr>tokensForSale := left\<rparr>;
                  order2 = (if tokensForSale order1 = 0 then order1\<lparr>order_isActive := False\<rparr> else order1)
              in Inr (s2\<lparr>sellOrders := (sellOrders s2)(orderId := order2)\<rparr>))))))"

definition cancelSellOrder :: "address \<Rightarrow> nat \<Rightarrow> PropertyToken \<Rightarrow> error + PropertyToken" where
  "cancelSellOrder sender orderId s =
     (let order = sellOrders s orderId in
      if \<not> (seller order = sender \<or> sender = contract_owner s) then Inl (Revert ''Not authorized'')
      else if \<not> order_isActive order then Inl (Revert ''Order not active'')
      else Inr (s\<lparr>sellOrders := (sellOrders s)(orderId := order\<lparr>order_isActive := False\<rparr>)\<rparr>))"

text \<open>
  The storages the contract can be in: the constructor's, and whatever a successful call
  of one of its functions makes of a reachable one. \<open>msg.sender\<close> is never the zero
  address, and never the contract itself, which has no code that calls its own external
  functions. The token and the ERC721 tables also change through calls that do not touch
  the other storage (token transfers, approvals, mints and pauses by anyone; transfers of
  the property NFTs), and Ownable's \<open>transferOwnership\<close> and \<open>renounceOwnership\<close> write
  the owner and nothing else; the last three rules cover these without fixing who
  called what.
\<close>

inductive reachable :: "PropertyToken \<Rightarrow> bool" where
  r_constructor:
    "deployer \<noteq> 0 \<Longrightarrow> self \<noteq> 0 \<Longrightarrow> deployer \<noteq> self \<Longrightarrow>
       reachable (constructor deployer self t recipient)"
| r_listProperty:
    "reachable s \<Longrightarrow> sender \<noteq> 0 \<Longrightarrow> sender \<noteq> this s \<Longrightarrow>
       listProperty sender timestamp uri v n ty r s = Inr (s', pid) \<Longrightarrow> reachable s'"
| r_verifyProperty:
    "reachable s \<Longrightarrow> sender \<noteq> 0 \<Longrightarrow> sender \<noteq> this s \<Longrightarrow>
       verifyProperty sender pid s = Inr s' \<Longrightarrow> reachable s'"
| r_purchaseTokens:
    "reachable s \<Longrightarrow> sender \<noteq> 0 \<Longrightarrow> sender \<noteq> this s \<Longrightarrow>
       purchaseTokens sender timestamp pid n s = Inr s' \<Longrightarrow> reachable s'"
| r_distributeRentalIncome:
    "reachable s \<Longrightarrow> sender \<noteq> 0 \<Longrightarrow> sender \<noteq> this s \<Longrightarrow>
       distributeRentalIncome sender pid income s = Inr s' \<Longrightarrow> reachable s'"
| r_setPlatformFee:
    "reachable s \<Longrightarrow> sender \<noteq> 0 \<Longrightarrow> sender \<noteq> this s \<Longrightarrow>
       setPlatformFee sender fee s = Inr s' \<Longrightarrow> reachable s'"
| r_setFeeRecipient:
    "reachable s \<Longrightarrow> sender \<noteq> 0 \<Longrightarrow> sender \<noteq> this s \<Longrightarrow>
       setFeeRecipient sender recipient s = Inr s' \<Longrightarrow> reachable s'"
| r_createSellOrder:
    "reachable s \<Longrightarrow> sender \<noteq> 0 \<Longrightarrow> sender \<noteq> this s \<Longrightarrow>
       createSellOrder sender timestamp pid n price days s = Inr (s', oid) \<Longrightarrow> reachable s'"
| r_buyFromOrder:
    "reachable s \<Longrightarrow> sender \<noteq> 0 \<Longrightarrow> sender \<noteq> this s \<Longrightarrow>
       buyFromOrder sender timestamp oid n s = Inr s' \<Longrightarrow> reachable s'"
| r_cancelSellOrder:
    "reachable s \<Longrightarrow> sender \<noteq> 0 \<Longrightarrow> sender \<noteq> this s \<Longrightarrow>
       cancelSellOrder sender oid s = Inr s' \<Longrightarrow> reachable s'"
| r_token:
    "reachable s \<Longrightarrow> reachable (s\<lparr>hrmToken := t\<rparr>)"
| r_nft:
    "reachable s \<Longrightarrow> reachable (s\<lparr>nft_owners := f\<rparr>)"
| r_owner:
    "reachable s \<Longrightarrow> reachable (s\<lparr>contract_owner := a\<rparr>)"

text \<open>
  The storage after \<open>credit_investment\<close> when neither of its two additions overflows.
\<close>

definition credited :: "nat \<Rightarrow> address \<Rightarrow> nat \<Rightarrow> nat \<Rightarrow> nat \<Rightarrow> PropertyToken \<Rightarrow> PropertyToken" where
  "credited ts b pid n net s = s\<lparr>propertyInvestors := (if investor (investments s pid b) = 0
                 then (propertyInvestors s)(pid := propertyInvestors s pid @ [b])
                 else propertyInvestors s),
             investorProperties := (if investor (investments s pid b) = 0
                 then (investorProperties s)(b := investorProperties s b @ [pid])
                 else investorProperties s),
             investments := (investments s)(pid := (investments s pid)
                 (b := \<lparr>investor = b, tokensOwned = tokensOwned (investments s pid b) + n,
                         investmentAmount = investmentAmount (investments s pid b) + net,
                         purchaseDate = ts\<rparr>))\<rparr>"


section \<open>A deployment to run the contract on\<close>

text \<open>
  Account 1 deploys the contract at address 100 with account 9 as fee recipient.
  Account 2 lists a property of 1000 shares worth 1000 HRM (one HRM, \<open>10 ^ 18\<close> units,
  a share), account 1 verifies it, account 3 buys 200 shares and account 4 buys 100.
  Account 3 then offers 150 shares twice, and account 4 fills the first order.
  The token holds 1000 HRM for each buyer, both have approved the contract for that
  amount, and the contract itself holds 1000 units.
\<close>

definition demo_token :: HRMToken where
  "demo_token =
     \<lparr>balances = (\<lambda>_. 0)(3 := 1000 * 10 ^ 18, 4 := 1000 * 10 ^ 18, 100 := 1000),
      allowances = (\<lambda>_ _. 0)(3 := (\<lambda>_. 0)(100 := 1000 * 10 ^ 18),
                               4 := (\<lambda>_. 0)(100 := 1000 * 10 ^ 18)),
      totalSupply = 2000 * 10 ^ 18 + 1000, paused = False, token_owner = 1\<rparr>"

definition demo_deployed :: PropertyToken where
  "demo_deployed = constructor 1 100 demo_token 9"

definition demo_listed :: PropertyToken where
  "demo_listed =
     (case listProperty 2 1000 ''ipfs://demo'' (1000 * 10 ^ 18) 1000 Residential Low demo_deployed
      of Inl e \<Rightarrow> demo_deployed | Inr (s, pid) \<Rightarrow> s)"

definition demo_verified :: PropertyToken where
  "demo_verified = storage_after demo_listed (verifyProperty 1 0 demo_listed)"

definition demo_first_sale :: PropertyToken where
  "demo_first_sale = storage_after demo_verified (purchaseTokens 3 2000 0 200 demo_verified)"

definition demo_sold :: PropertyToken where
  "demo_sold = storage_after demo_first_sale (purchaseTokens 4 3000 0 100 demo_first_sale)"

definition demo_first_order :: PropertyToken where
  "demo_first_order =
     (case createSellOrder 3 4000 0 150 10 30 demo_sold
      of Inl e \<Rightarrow> demo_sold | Inr (s, oid) \<Rightarrow> s)"

definition demo_second_order :: PropertyToken where
  "demo_second_order =
     (case createSellOrder 3 4000 0 150 10 30 demo_first_order
      of Inl e \<Rightarrow> demo_first_order | Inr (s, oid) \<Rightarrow> s)"

definition demo_filled :: PropertyToken where
  "demo_filled = storage_after demo_second_order (buyFromOrder 4 5000 0 150 demo_second_order)"

text \<open>
  After the first order is filled, account 3 buys another 100 shares from the property,
  and account 4 then fills the second order as well.
\<close>

definition demo_topped_up :: PropertyToken where
  "demo_topped_up = storage_after demo_filled (purchaseTokens 3 6000 0 100 demo_filled)"

definition demo_both_filled :: PropertyToken where
  "demo_both_filled = storage_after demo_topped_up (buyFromOrder 4 7000 1 150 demo_topped_up)"

text \<open>
  Two variations of the verified deployment: one where the fee recipient has been set to
  account 2, the owner of the property, and account 3 then buys its 200 shares; and one
  where the buyers' approvals are gone.
\<close>

definition demo_owner_fee :: PropertyToken where
  "demo_owner_fee = storage_after demo_verified (setFeeRecipient 1 2 demo_verified)"

definition demo_owner_fee_sale :: PropertyToken where
  "demo_owner_fee_sale = storage_after demo_owner_fee (purchaseTokens 3 2000 0 200 demo_owner_fee)"

definition demo_unapproved :: PropertyToken where
  "demo_unapproved = demo_verified\<lparr>hrmToken := demo_token\<lparr>allowances := (\<lambda>_ _. 0)\<rparr>\<rparr>"

text \<open>
  A DisasterManagement contract at address 200, owned by account 1, holding 1000 units
  of the token for an insurance fund of 1000, with one pending claim of account 5.
\<close>

definition dm_demo :: DisasterManagement where
  "dm_demo =
     \<lparr>dm_hrmToken = \<lparr>balances = (\<lambda>_. 0)(200 := 1000), allowances = (\<lambda>_ _. 0),
                      totalSupply = 1000, paused = False, token_owner = 1\<rparr>,
      dm_owner = 1, dm_this = 200, disasterReportCount = 1, insuranceClaimCount = 1,
      insuranceFund = 1000,
      disasterReports = (\<lambda>_. \<lparr>report_id = 0, report_propertyId = 0, disasterType = FLOOD,
                               report_description = [], reportedAt = 0, reporter = 0,
                               verified = False\<rparr>)
        (1 := \<lparr>report_id = 1, report_propertyId = 0, disasterType = FIRE,
               report_description = ''fire'', reportedAt = 10, reporter = 1, verified = True\<rparr>),
      insuranceClaims = (\<lambda>_. \<lparr>claim_id = 0, claim_propertyId = 0, disasterReportId = 0,
                               claimAmount = 0, status = PENDING, evidence = [], claimedAt = 0,
                               claimant = 0, approvedAmount = 0\<rparr>)
        (1 := \<lparr>claim_id = 1, claim_propertyId = 0, disasterReportId = 1, claimAmount = 800,
               status = PENDING, evidence = ''photos'', claimedAt = 20, claimant = 5,
               approvedAmount = 0\<rparr>),
      propertyDisasters = (\<lambda>_. [])(0 := [1]),
      authorizedReporters = (\<lambda>_. False)(1 := True)\<rparr>"

definition dm_demo_paused :: DisasterManagement where
  "dm_demo_paused = dm_demo\<lparr>dm_hrmToken := (dm_hrmToken dm_demo)\<lparr>paused := True\<rparr>\<rparr>"

definition demo_cancelled :: PropertyToken where
  "demo_cancelled = storage_after demo_filled (cancelSellOrder 3 1 demo_filled)"

definition demo_distributed :: PropertyToken where
  "demo_distributed = storage_after demo_sold (distributeRentalIncome 1 0 1000 demo_sold)"

section \<open>What every reachable storage satisfies\<close>

text \<open>
  Per property: no more shares are available than exist; the investor index has no
  duplicates and never holds the contract itself; an account is in the index exactly when
  its investment record has been written; an account with shares has a written record;
  the shares held by the indexed investors add up to the shares sold; and a property with
  an investor has sold a share and exists. For the whole storage: the contract's address
  is not zero, the fee is at most ten percent, only existing properties are active, and
  every existing property has an owner.
\<close>

definition property_inv :: "PropertyToken \<Rightarrow> nat \<Rightarrow> bool" where
  "property_inv s pid \<longleftrightarrow>
     availableTokens (properties s pid) \<le> totalTokens (properties s pid) \<and>
     distinct (propertyInvestors s pid) \<and>
     investor (investments s pid (this s)) = 0 \<and>
     (\<forall>a. a \<in> set (propertyInvestors s pid) \<longleftrightarrow> investor (investments s pid a) \<noteq> 0) \<and>
     (\<forall>a. 0 < tokensOwned (investments s pid a) \<longrightarrow> investor (investments s pid a) \<noteq> 0) \<and>
     sum_list (map (\<lambda>a. tokensOwned (investments s pid a)) (propertyInvestors s pid)) =
       totalTokens (properties s pid) - availableTokens (properties s pid) \<and>
     (propertyInvestors s pid \<noteq> [] \<longrightarrow>
        availableTokens (properties s pid) < totalTokens (properties s pid) \<and> pid < tokenIdCounter s)"

definition storage_inv :: "PropertyToken \<Rightarrow> bool" where
  "storage_inv s \<longleftrightarrow>
     this s \<noteq> 0 \<and> platformFeePercent s \<le> 1000 \<and>
     (\<forall>pid. isActive (properties s pid) \<longrightarrow> pid < tokenIdCounter s) \<and>
     (\<forall>pid. pid < tokenIdCounter s \<longrightarrow> propertyOwner (properties s pid) \<noteq> 0) \<and>
     (\<forall>pid. property_inv s pid)"

section \<open>Theorems\<close>

lemmas arith_defs = then_do_def checked_add_def checked_sub_def checked_mul_def checked_div_def UINT256_LIMIT_def

lemmas token_defs = transfer_def transferFrom_def approve_def mint_def burn_def erc20_transfer_def
  erc20_mint_def erc20_burn_def erc20_approve_def spendAllowance_def beforeTokenTransfer_def
  whenNotPaused_def

subsection \<open>What a successful call did\<close>

lemma then_do_simps:
  "then_do (Inl e) f = Inl e"
  "then_do (Inr x) f = f x"
  by (simp_all add: then_do_def)

lemma transfer_Inr_iff:
  "transfer a b n t = Inr t' \<longleftrightarrow>
     a \<noteq> 0 \<and> b \<noteq> 0 \<and> \<not> paused t \<and> n \<le> balances t a \<and>
     t' = t\<lparr>balances := ((balances t)(a := balances t a - n))
                (b := ((balances t)(a := balances t a - n)) b + n)\<rparr>"
  by (auto simp: token_defs arith_defs Let_def)

lemma transferFrom_Inr_iff:
  "transferFrom sp a b n t = Inr t' \<longleftrightarrow>
     a \<noteq> 0 \<and> b \<noteq> 0 \<and> \<not> paused t \<and> n \<le> balances t a \<and>
     (allowances t a sp \<noteq> 2 ^ 256 - 1 \<longrightarrow> n \<le> allowances t a sp \<and> sp \<noteq> 0) \<and>
     t' = t\<lparr>allowances := (if allowances t a sp \<noteq> 2 ^ 256 - 1
                 then (allowances t)(a := (allowances t a)(sp := allowances t a sp - n))
                 else allowances t),
             balances := ((balances t)(a := balances t a - n))
                (b := ((balances t)(a := balances t a - n)) b + n)\<rparr>"
  by (auto simp: token_defs arith_defs Let_def)

lemma credit_investment_Inr_iff:
  "credit_investment ts b pid n net s = Inr s' \<longleftrightarrow>
     tokensOwned (investments s pid b) + n < 2 ^ 256 \<and>
     investmentAmount (investments s pid b) + net < 2 ^ 256 \<and>
     s' = s\<lparr>propertyInvestors := (if investor (investments s pid b) = 0
                 then (propertyInvestors s)(pid := propertyInvestors s pid @ [b])
                 else propertyInvestors s),
             investorProperties := (if investor (investments s pid b) = 0
                 then (investorProperties s)(b := investorProperties s b @ [pid])
                 else investorProperties s),
             investments := (investments s)(pid := (investments s pid)
                 (b := \<lparr>investor = b, tokensOwned = tokensOwned (investments s pid b) + n,
                         investmentAmount = investmentAmount (investments s pid b) + net,
                         purchaseDate = ts\<rparr>))\<rparr>"
  by (auto simp: credit_investment_def arith_defs Let_def)


lemma then_do_Inr_iff: "then_do m f = Inr y \<longleftrightarrow> (\<exists>x. m = Inr x \<and> f x = Inr y)"
  by (cases m) (simp_all add: then_do_def)

lemma isl_then_do: "isl (then_do m f) \<longleftrightarrow> isl m \<or> (\<exists>x. m = Inr x \<and> isl (f x))"
  by (cases m) (simp_all add: then_do_def)

lemma not_isl_iff: "\<not> isl r \<longleftrightarrow> (\<exists>x. r = Inr x)"
  by (cases r) simp_all

lemma transfer_ok_iff:
  "\<not> isl (transfer a b n t) \<longleftrightarrow> a \<noteq> 0 \<and> b \<noteq> 0 \<and> \<not> paused t \<and> n \<le> balances t a"
  by (simp add: not_isl_iff transfer_Inr_iff)

lemma transferFrom_ok_iff:
  "\<not> isl (transferFrom sp a b n t) \<longleftrightarrow>
     a \<noteq> 0 \<and> b \<noteq> 0 \<and> \<not> paused t \<and> n \<le> balances t a \<and>
     (allowances t a sp \<noteq> 2 ^ 256 - 1 \<longrightarrow> n \<le> allowances t a sp \<and> sp \<noteq> 0)"
  by (simp add: not_isl_iff transferFrom_Inr_iff)

lemma transfer_balances:
  "transfer a b n t = Inr t' \<Longrightarrow>
     int (balances t' x) = int (balances t x) - (if x = a then int n else 0) + (if x = b then int n else 0)
     \<and> paused t' = paused t \<and> totalSupply t' = totalSupply t"
  by (auto simp: transfer_Inr_iff)

lemma transferFrom_balances:
  "transferFrom sp a b n t = Inr t' \<Longrightarrow>
     int (balances t' x) = int (balances t x) - (if x = a then int n else 0) + (if x = b then int n else 0)
     \<and> paused t' = paused t \<and> totalSupply t' = totalSupply t"
  by (auto simp: transferFrom_Inr_iff)

lemma token_payment_steps:
  "token_payment sender C fee net payee s = Inr t3 \<longleftrightarrow>
     (\<exists>t1 t2. transferFrom (this s) sender (this s) C (hrmToken s) = Inr t1 \<and>
        transfer (this s) (feeRecipient s) fee t1 = Inr t2 \<and>
        transfer (this s) payee net t2 = Inr t3)"
  by (simp add: token_payment_def then_do_Inr_iff)

lemma token_payment_balances:
  assumes "token_payment sender C fee net payee s = Inr t3" and "fee + net = C"
  shows "int (balances t3 a) = int (balances (hrmToken s) a)
           - (if a = sender then int C else 0)
           + (if a = feeRecipient s then int fee else 0)
           + (if a = payee then int net else 0)"
    and "paused t3 = paused (hrmToken s)" and "totalSupply t3 = totalSupply (hrmToken s)"
proof -
  from assms(1) obtain t1 t2 where
    1: "transferFrom (this s) sender (this s) C (hrmToken s) = Inr t1" and
    2: "transfer (this s) (feeRecipient s) fee t1 = Inr t2" and
    3: "transfer (this s) payee net t2 = Inr t3"
    by (auto simp: token_payment_steps)
  have c: "int fee + int net = int C" using assms(2) by simp
  note b1 = transferFrom_balances[OF 1, of a] and b2 = transfer_balances[OF 2, of a]
    and b3 = transfer_balances[OF 3, of a]
  show "int (balances t3 a) = int (balances (hrmToken s) a)
           - (if a = sender then int C else 0)
           + (if a = feeRecipient s then int fee else 0)
           + (if a = payee then int net else 0)"
    using b1 b2 b3 c by (simp split: if_splits)
  show "paused t3 = paused (hrmToken s)" using b1 b2 b3 by simp
  show "totalSupply t3 = totalSupply (hrmToken s)" using b1 b2 b3 by simp
qed

lemma token_payment_ok_iff:
  assumes "fee + net = C"
  shows "\<not> isl (token_payment sender C fee net payee s) \<longleftrightarrow>
      sender \<noteq> 0 \<and> this s \<noteq> 0 \<and> feeRecipient s \<noteq> 0 \<and> payee \<noteq> 0 \<and> \<not> paused (hrmToken s) \<and>
      C \<le> balances (hrmToken s) sender \<and>
      (allowances (hrmToken s) sender (this s) \<noteq> 2 ^ 256 - 1 \<longrightarrow> C \<le> allowances (hrmToken s) sender (this s))"
    (is "?L \<longleftrightarrow> ?R")
proof
  assume ?L
  then obtain t3 where "token_payment sender C fee net payee s = Inr t3" by (auto simp: not_isl_iff)
  then obtain t1 t2 where
    1: "transferFrom (this s) sender (this s) C (hrmToken s) = Inr t1" and
    2: "transfer (this s) (feeRecipient s) fee t1 = Inr t2" and
    3: "transfer (this s) payee net t2 = Inr t3"
    by (auto simp: token_payment_steps)
  from 1 have a: "sender \<noteq> 0 \<and> this s \<noteq> 0 \<and> \<not> paused (hrmToken s) \<and> C \<le> balances (hrmToken s) sender \<and>
      (allowances (hrmToken s) sender (this s) \<noteq> 2 ^ 256 - 1 \<longrightarrow> C \<le> allowances (hrmToken s) sender (this s))"
    by (simp add: transferFrom_Inr_iff)
  from 2 have b: "feeRecipient s \<noteq> 0" by (simp add: transfer_Inr_iff)
  from 3 have c: "payee \<noteq> 0" by (simp add: transfer_Inr_iff)
  from a b c show ?R by simp
next
  assume r: ?R
  then have "\<not> isl (transferFrom (this s) sender (this s) C (hrmToken s))"
    by (simp add: transferFrom_ok_iff)
  then obtain t1 where 1: "transferFrom (this s) sender (this s) C (hrmToken s) = Inr t1"
    by (auto simp: not_isl_iff)
  note b1 = transferFrom_balances[OF 1, of "this s"]
  have "fee \<le> balances t1 (this s)" using b1 assms r by (simp split: if_splits)
  then have "\<not> isl (transfer (this s) (feeRecipient s) fee t1)"
    using r b1 by (simp add: transfer_ok_iff)
  then obtain t2 where 2: "transfer (this s) (feeRecipient s) fee t1 = Inr t2"
    by (auto simp: not_isl_iff)
  note b2 = transfer_balances[OF 2, of "this s"]
  have "net \<le> balances t2 (this s)" using b1 b2 assms r by (simp split: if_splits)
  then have "\<not> isl (transfer (this s) payee net t2)"
    using r b1 b2 by (simp add: transfer_ok_iff)
  then obtain t3 where 3: "transfer (this s) payee net t2 = Inr t3"
    by (auto simp: not_isl_iff)
  from 1 2 3 have "token_payment sender C fee net payee s = Inr t3"
    by (auto simp: token_payment_steps)
  then show ?L by simp
qed

lemma checked_Inr_iff:
  "checked_add a b = Inr c \<longleftrightarrow> a + b < 2 ^ 256 \<and> c = a + b"
  "checked_sub a b = Inr c \<longleftrightarrow> b \<le> a \<and> c = a - b"
  "checked_mul a b = Inr c \<longleftrightarrow> a * b < 2 ^ 256 \<and> c = a * b"
  "checked_div a b = Inr c \<longleftrightarrow> b \<noteq> 0 \<and> c = a div b"
  by (auto simp: checked_add_def checked_sub_def checked_mul_def checked_div_def UINT256_LIMIT_def)

lemma purchaseTokens_InrD:
  "purchaseTokens sender ts pid n s = Inr s' \<Longrightarrow>
     pid < tokenIdCounter s \<and> isActive (properties s pid) \<and> 0 < n \<and>
     n \<le> availableTokens (properties s pid) \<and>
     n * tokenPrice (properties s pid) < 2 ^ 256 \<and>
     MIN_INVESTMENT \<le> n * tokenPrice (properties s pid) \<and>
     n * tokenPrice (properties s pid) \<le> balances (hrmToken s) sender \<and>
     n * tokenPrice (properties s pid) * platformFeePercent s < 2 ^ 256 \<and>
     n * tokenPrice (properties s pid) * platformFeePercent s div 10000 \<le> n * tokenPrice (properties s pid) \<and>
     tokensOwned (investments s pid sender) + n < 2 ^ 256 \<and>
     investmentAmount (investments s pid sender) +
        (n * tokenPrice (properties s pid) - n * tokenPrice (properties s pid) * platformFeePercent s div 10000) < 2 ^ 256 \<and>
     (\<exists>t3. token_payment sender (n * tokenPrice (properties s pid))
              (n * tokenPrice (properties s pid) * platformFeePercent s div 10000)
              (n * tokenPrice (properties s pid) - n * tokenPrice (properties s pid) * platformFeePercent s div 10000)
              (propertyOwner (properties s pid)) s = Inr t3 \<and>
        s' = (credited ts sender pid n
               (n * tokenPrice (properties s pid) - n * tokenPrice (properties s pid) * platformFeePercent s div 10000)
               (s\<lparr>hrmToken := t3\<rparr>))
             \<lparr>properties := (properties s)(pid := (properties s pid)
                 \<lparr>availableTokens := availableTokens (properties s pid) - n\<rparr>)\<rparr>)"
  unfolding purchaseTokens_def Let_def
  apply (simp add: then_do_Inr_iff credit_investment_Inr_iff checked_Inr_iff split: if_splits)
  apply (elim exE conjE)
  apply (auto simp: credited_def)
  done


lemma buyFromOrder_InrD:
  "buyFromOrder sender ts oid n s = Inr s' \<Longrightarrow>
     (let ord = sellOrders s oid; pid = order_propertyId ord; sel = seller ord;
          C = n * pricePerToken ord; fee = C * platformFeePercent s div 10000; net = C - fee
      in order_isActive ord \<and> ts \<le> expiresAt ord \<and> 0 < n \<and> n \<le> tokensForSale ord \<and>
         sender \<noteq> sel \<and> n \<le> tokensOwned (investments s pid sel) \<and>
         C < 2 ^ 256 \<and> C \<le> balances (hrmToken s) sender \<and>
         C * platformFeePercent s < 2 ^ 256 \<and> fee \<le> C \<and>
         tokensOwned (investments s pid sender) + n < 2 ^ 256 \<and>
         investmentAmount (investments s pid sender) + net < 2 ^ 256 \<and>
         (\<exists>t3. token_payment sender C fee net sel s = Inr t3 \<and>
            s' = (credited ts sender pid n net
                   (s\<lparr>hrmToken := t3,
                      investments := (investments s)(pid := (investments s pid)
                        (sel := (investments s pid sel)
                           \<lparr>tokensOwned := tokensOwned (investments s pid sel) - n\<rparr>))\<rparr>))
                 \<lparr>sellOrders := (sellOrders s)(oid :=
                    (if tokensForSale ord - n = 0
                     then ord\<lparr>tokensForSale := tokensForSale ord - n, order_isActive := False\<rparr>
                     else ord\<lparr>tokensForSale := tokensForSale ord - n\<rparr>))\<rparr>))"
  unfolding buyFromOrder_def processBuyOrderPayment_def updateBuyOrderInvestments_def Let_def
  apply (simp add: then_do_Inr_iff credit_investment_Inr_iff checked_Inr_iff split: if_splits)
  apply (elim exE conjE)
  apply (auto simp: credited_def)
  done

lemma createSellOrder_InrD:
  "createSellOrder sender ts pid n price days s = Inr (s', oid) \<Longrightarrow>
     pid < tokenIdCounter s \<and> 0 < n \<and> n \<le> tokensOwned (investments s pid sender) \<and>
     oid = sellOrderCounter s \<and>
     s' = s\<lparr>sellOrderCounter := sellOrderCounter s + 1,
            sellOrders := (sellOrders s)(oid :=
              \<lparr>order_id = oid, order_propertyId = pid, seller = sender, tokensForSale = n,
               pricePerToken = price, totalPrice = n * price, order_isActive = True,
               order_createdAt = ts, expiresAt = ts + days * 86400\<rparr>),
            propertySellOrders := (propertySellOrders s)(pid := propertySellOrders s pid @ [oid]),
            userSellOrders := (userSellOrders s)(sender := userSellOrders s sender @ [oid])\<rparr>"
  unfolding createSellOrder_def Let_def
  by (auto simp: then_do_Inr_iff checked_Inr_iff split: if_splits)

lemma cancelSellOrder_InrD:
  "cancelSellOrder sender oid s = Inr s' \<Longrightarrow>
     s' = s\<lparr>sellOrders := (sellOrders s)(oid := (sellOrders s oid)\<lparr>order_isActive := False\<rparr>)\<rparr>"
  unfolding cancelSellOrder_def Let_def
  by (auto split: if_splits)

lemma listProperty_InrD:
  "listProperty sender ts uri v n ty r s = Inr (s', pid) \<Longrightarrow>
     0 < v \<and> 0 < n \<and> sender \<noteq> 0 \<and> pid = tokenIdCounter s \<and>
     s' = s\<lparr>tokenIdCounter := tokenIdCounter s + 1,
            properties := (properties s)(pid :=
              \<lparr>property_id = pid, metadataURI = uri, totalValue = v, totalTokens = n,
               availableTokens = n, tokenPrice = v div n, propertyOwner = sender,
               isActive = False, isVerified = False, createdAt = ts, propertyType = ty,
               riskLevel = r\<rparr>),
            nft_owners := (nft_owners s)(pid := sender),
            tokenURIs := (tokenURIs s)(pid := uri)\<rparr>"
  unfolding listProperty_def Let_def
  by (auto simp: then_do_Inr_iff checked_Inr_iff split: if_splits)

lemma verifyProperty_InrD:
  "verifyProperty sender pid s = Inr s' \<Longrightarrow>
     sender = contract_owner s \<and> pid < tokenIdCounter s \<and>
     s' = s\<lparr>properties := (properties s)
            (pid := (properties s pid)\<lparr>isVerified := True, isActive := True\<rparr>)\<rparr>"
  unfolding verifyProperty_def
  by (auto split: if_splits)

lemma distributeRentalIncome_InrD:
  "distributeRentalIncome sender pid income s = Inr s' \<Longrightarrow>
     sender = contract_owner s \<and> pid < tokenIdCounter s \<and> 0 < income \<and>
     income \<le> balances (hrmToken s) (this s) \<and>
     availableTokens (properties s pid) \<le> totalTokens (properties s pid) \<and>
     (\<exists>t1. distribute_loop (this s) (investments s pid) income
              (totalTokens (properties s pid) - availableTokens (properties s pid))
              (propertyInvestors s pid) (hrmToken s) = Inr t1 \<and>
           s' = s\<lparr>hrmToken := t1\<rparr>)"
  unfolding distributeRentalIncome_def Let_def
  by (auto simp: then_do_Inr_iff checked_Inr_iff split: if_splits)

lemma setPlatformFee_InrD:
  "setPlatformFee sender fee s = Inr s' \<Longrightarrow> fee \<le> 1000 \<and> s' = s\<lparr>platformFeePercent := fee\<rparr>"
  unfolding setPlatformFee_def by (auto split: if_splits)

lemma setFeeRecipient_InrD:
  "setFeeRecipient sender r s = Inr s' \<Longrightarrow> r \<noteq> 0 \<and> s' = s\<lparr>feeRecipient := r\<rparr>"
  unfolding setFeeRecipient_def by (auto split: if_splits)

subsection \<open>The invariant holds in every reachable storage\<close>

lemma sum_list_map_upd_notin:
  "b \<notin> set xs \<Longrightarrow> sum_list (map (\<lambda>a. g (if a = b then r else h a)) xs) = sum_list (map (\<lambda>a. g (h a)) xs)"
  by (induction xs) auto

lemma sum_list_map_upd_in:
  "distinct xs \<Longrightarrow> b \<in> set xs \<Longrightarrow>
     sum_list (map (\<lambda>a. g (if a = b then r else h a)) xs) + g (h b) = sum_list (map (\<lambda>a. g (h a)) xs) + (g r :: nat)"
  by (induction xs) (auto simp: sum_list_map_upd_notin)

lemma credited_property_inv_other:
  "q \<noteq> pid \<Longrightarrow> property_inv (credited ts b pid n net s) q = property_inv s q"
  by (simp add: property_inv_def credited_def)

lemma credit_sum:
  assumes "distinct xs" and "\<forall>a. a \<in> set xs \<longleftrightarrow> investor (h a) \<noteq> 0"
    and "\<forall>a. 0 < tokensOwned (h a) \<longrightarrow> investor (h a) \<noteq> 0"
  shows "sum_list (map (\<lambda>a. tokensOwned ((h(b := \<lparr>investor = b, tokensOwned = tokensOwned (h b) + n,
                       investmentAmount = m, purchaseDate = ts\<rparr>)) a))
            (if investor (h b) = 0 then xs @ [b] else xs))
         = sum_list (map (\<lambda>a. tokensOwned (h a)) xs) + n"
proof (cases "investor (h b) = 0")
  case True
  then have "b \<notin> set xs" "tokensOwned (h b) = 0" using assms by auto
  then show ?thesis using True by (simp add: sum_list_map_upd_notin)
next
  case False
  then have "b \<in> set xs" using assms by auto
  from sum_list_map_upd_in[OF assms(1) this, where g=tokensOwned and h=h
      and r="\<lparr>investor = b, tokensOwned = tokensOwned (h b) + n, investmentAmount = m, purchaseDate = ts\<rparr>"]
  show ?thesis using False by simp
qed


lemma credited_property_inv:
  assumes "property_inv s pid" and "b \<noteq> this s" and "b \<noteq> 0"
    and "0 < n" and "n \<le> availableTokens (properties s pid)" and "pid < tokenIdCounter s"
  shows "property_inv ((credited ts b pid n net s)
           \<lparr>properties := (properties s)(pid := (properties s pid)
               \<lparr>availableTokens := availableTokens (properties s pid) - n\<rparr>)\<rparr>) pid"
proof -
  let ?h = "investments s pid" and ?xs = "propertyInvestors s pid"
  have d: "distinct ?xs" and c: "\<forall>a. a \<in> set ?xs \<longleftrightarrow> investor (?h a) \<noteq> 0"
    and f: "\<forall>a. 0 < tokensOwned (?h a) \<longrightarrow> investor (?h a) \<noteq> 0"
    and g: "sum_list (map (\<lambda>a. tokensOwned (?h a)) ?xs) =
              totalTokens (properties s pid) - availableTokens (properties s pid)"
    and le: "availableTokens (properties s pid) \<le> totalTokens (properties s pid)"
    and th: "investor (?h (this s)) = 0"
    using assms(1) by (auto simp: property_inv_def)
  note cs = credit_sum[OF d c f, of b n "investmentAmount (?h b) + net" ts]
  show ?thesis
    unfolding property_inv_def credited_def
    using cs d c f g le th assms(2-)
    by (auto simp: fun_upd_def)
qed


lemma debit_sum:
  assumes "distinct xs" and "sel \<in> set xs" and "n \<le> tokensOwned (h sel)"
  shows "sum_list (map (\<lambda>a. tokensOwned (if a = sel
            then (h sel)\<lparr>tokensOwned := tokensOwned (h sel) - n\<rparr> else h a)) xs) + n
         = sum_list (map (\<lambda>a. tokensOwned (h a)) xs)"
  using sum_list_map_upd_in[OF assms(1,2), where g=tokensOwned and h=h
      and r="(h sel)\<lparr>tokensOwned := tokensOwned (h sel) - n\<rparr>"] assms(3)
  by simp

lemma bought_property_inv:
  assumes "property_inv s pid" and "b \<noteq> this s" and "b \<noteq> 0" and "b \<noteq> sel"
    and "0 < n" and "n \<le> tokensOwned (investments s pid sel)"
  shows "property_inv ((credited ts b pid n net
           (s\<lparr>hrmToken := t3,
              investments := (investments s)(pid := (investments s pid)
                (sel := (investments s pid sel)
                   \<lparr>tokensOwned := tokensOwned (investments s pid sel) - n\<rparr>))\<rparr>))
           \<lparr>sellOrders := so\<rparr>) pid"
proof -
  let ?h = "investments s pid" and ?xs = "propertyInvestors s pid"
  let ?h1 = "\<lambda>a. if a = sel then (?h sel)\<lparr>tokensOwned := tokensOwned (?h sel) - n\<rparr> else ?h a"
  have d: "distinct ?xs" and c: "\<forall>a. a \<in> set ?xs \<longleftrightarrow> investor (?h a) \<noteq> 0"
    and f: "\<forall>a. 0 < tokensOwned (?h a) \<longrightarrow> investor (?h a) \<noteq> 0"
    and g: "sum_list (map (\<lambda>a. tokensOwned (?h a)) ?xs) =
              totalTokens (properties s pid) - availableTokens (properties s pid)"
    and le: "availableTokens (properties s pid) \<le> totalTokens (properties s pid)"
    and th: "investor (?h (this s)) = 0"
    and ne: "?xs \<noteq> [] \<longrightarrow> availableTokens (properties s pid) < totalTokens (properties s pid)
               \<and> pid < tokenIdCounter s"
    using assms(1) by (auto simp: property_inv_def)
  have sel_in: "sel \<in> set ?xs" using assms(5,6) c f by auto
  then have nonempty: "?xs \<noteq> []" by auto
  have c1: "\<forall>a. a \<in> set ?xs \<longleftrightarrow> investor (?h1 a) \<noteq> 0" using c by simp
  have f1: "\<forall>a. 0 < tokensOwned (?h1 a) \<longrightarrow> investor (?h1 a) \<noteq> 0" using f sel_in c by simp
  note cs = credit_sum[OF d c1 f1, of b n "investmentAmount (?h b) + net" ts]
  note ds = debit_sum[where h="investments s pid", OF d sel_in assms(6)]
  have total: "sum_list (map (\<lambda>a. tokensOwned
        (if a = b then \<lparr>investor = b, tokensOwned = tokensOwned (?h b) + n,
             investmentAmount = investmentAmount (?h b) + net, purchaseDate = ts\<rparr>
         else ?h1 a)) (if investor (?h b) = 0 then ?xs @ [b] else ?xs))
      = totalTokens (properties s pid) - availableTokens (properties s pid)"
    using cs ds g assms(4) by (simp add: fun_upd_def)
  show ?thesis
    unfolding property_inv_def credited_def
    using total d c f le th ne nonempty sel_in assms(2-)
    by (auto simp: fun_upd_def)
qed


lemma property_inv_frame:
  assumes "properties s' pid = properties s pid" "propertyInvestors s' pid = propertyInvestors s pid"
    "investments s' pid = investments s pid" "this s' = this s" "tokenIdCounter s \<le> tokenIdCounter s'"
  shows "property_inv s pid \<Longrightarrow> property_inv s' pid"
  using assms by (auto simp: property_inv_def)

lemma constructor_inv: "self \<noteq> 0 \<Longrightarrow> storage_inv (constructor d self t r)"
  by (simp add: storage_inv_def property_inv_def constructor_def zero_Property_def zero_Investment_def)

lemma listProperty_inv:
  assumes "storage_inv s" and "listProperty sender ts uri v n ty r s = Inr (s', pid)"
  shows "storage_inv s'"
proof -
  note D = listProperty_InrD[OF assms(2)]
  have pi: "\<And>q. property_inv s q" and rest: "this s \<noteq> 0" "platformFeePercent s \<le> 1000"
    "\<And>q. isActive (properties s q) \<Longrightarrow> q < tokenIdCounter s"
    "\<And>q. q < tokenIdCounter s \<Longrightarrow> propertyOwner (properties s q) \<noteq> 0"
    using assms(1) by (auto simp: storage_inv_def)
  have empty: "propertyInvestors s pid = []"
    using pi[of pid] D by (auto simp: property_inv_def)
  have "property_inv s' q" for q
  proof (cases "q = pid")
    case True
    then show ?thesis using pi[of pid] empty D by (auto simp: property_inv_def)
  next
    case False
    then show ?thesis using pi[of q] D by (auto simp: property_inv_def)
  qed
  then show ?thesis using rest D by (auto simp: storage_inv_def less_Suc_eq)
qed

lemma verifyProperty_inv:
  assumes "storage_inv s" and "verifyProperty sender pid s = Inr s'"
  shows "storage_inv s'"
  using assms(1) verifyProperty_InrD[OF assms(2)]
  by (auto simp: storage_inv_def property_inv_def)

lemma purchaseTokens_inv:
  assumes "storage_inv s" and "sender \<noteq> 0" and "sender \<noteq> this s"
    and "purchaseTokens sender ts pid n s = Inr s'"
  shows "storage_inv s'"
proof -
  from purchaseTokens_InrD[OF assms(4)] obtain t3 where
    g: "pid < tokenIdCounter s" "0 < n" "n \<le> availableTokens (properties s pid)" and
    s': "s' = (credited ts sender pid n
               (n * tokenPrice (properties s pid) - n * tokenPrice (properties s pid) * platformFeePercent s div 10000)
               (s\<lparr>hrmToken := t3\<rparr>))
             \<lparr>properties := (properties s)(pid := (properties s pid)
                 \<lparr>availableTokens := availableTokens (properties s pid) - n\<rparr>)\<rparr>"
    by auto
  have pi: "\<And>q. property_inv s q" and rest: "this s \<noteq> 0" "platformFeePercent s \<le> 1000"
    "\<And>q. isActive (properties s q) \<Longrightarrow> q < tokenIdCounter s"
    "\<And>q. q < tokenIdCounter s \<Longrightarrow> propertyOwner (properties s q) \<noteq> 0"
    using assms(1) by (auto simp: storage_inv_def)
  let ?s1 = "s\<lparr>hrmToken := t3\<rparr>"
  have pi1: "property_inv ?s1 q" for q using pi[of q] by (auto simp: property_inv_def)
  have "property_inv s' q" for q
  proof (cases "q = pid")
    case True
    from credited_property_inv[OF pi1[of pid], of sender n ts] assms(2,3) g
    show ?thesis unfolding s' True by simp
  next
    case False
    then show ?thesis using pi1[of q] unfolding s'
      by (auto simp: property_inv_def credited_def)
  qed
  then show ?thesis using rest unfolding storage_inv_def s'
    by (auto simp: credited_def)
qed

lemma buyFromOrder_inv:
  assumes "storage_inv s" and "sender \<noteq> 0" and "sender \<noteq> this s"
    and "buyFromOrder sender ts oid n s = Inr s'"
  shows "storage_inv s'"
proof -
  let ?ord = "sellOrders s oid"
  let ?pid = "order_propertyId ?ord" and ?sel = "seller ?ord"
  from buyFromOrder_InrD[OF assms(4)] obtain t3 net so where
    g: "0 < n" "sender \<noteq> ?sel" "n \<le> tokensOwned (investments s ?pid ?sel)" and
    s': "s' = (credited ts sender ?pid n net
                   (s\<lparr>hrmToken := t3,
                      investments := (investments s)(?pid := (investments s ?pid)
                        (?sel := (investments s ?pid ?sel)
                           \<lparr>tokensOwned := tokensOwned (investments s ?pid ?sel) - n\<rparr>))\<rparr>))
                 \<lparr>sellOrders := so\<rparr>"
    unfolding Let_def by blast
  have pi: "\<And>q. property_inv s q" and rest: "this s \<noteq> 0" "platformFeePercent s \<le> 1000"
    "\<And>q. isActive (properties s q) \<Longrightarrow> q < tokenIdCounter s"
    "\<And>q. q < tokenIdCounter s \<Longrightarrow> propertyOwner (properties s q) \<noteq> 0"
    using assms(1) by (auto simp: storage_inv_def)
  have "property_inv s' q" for q
  proof (cases "q = ?pid")
    case True
    from bought_property_inv[OF pi[of ?pid] assms(3,2) g(2,1,3)]
    show ?thesis unfolding s' True by simp
  next
    case False
    then show ?thesis using pi[of q] unfolding s'
      by (auto simp: property_inv_def credited_def)
  qed
  then show ?thesis using rest unfolding storage_inv_def s'
    by (auto simp: credited_def)
qed

lemma reachable_storage_inv: "reachable s \<Longrightarrow> storage_inv s"
proof (induction rule: reachable.induct)
  case (r_constructor deployer self t recipient)
  then show ?case by (simp add: constructor_inv)
next
  case (r_listProperty s sender timestamp uri v n ty r s' pid)
  then show ?case by (auto intro: listProperty_inv)
next
  case (r_verifyProperty s sender pid s')
  then show ?case by (auto intro: verifyProperty_inv)
next
  case (r_purchaseTokens s sender timestamp pid n s')
  then show ?case by (auto intro: purchaseTokens_inv)
next
  case (r_distributeRentalIncome s sender pid income s')
  then show ?case using distributeRentalIncome_InrD[of sender pid income s s']
    by (auto simp: storage_inv_def property_inv_def)
next
  case (r_setPlatformFee s sender fee s')
  then show ?case using setPlatformFee_InrD[of sender fee s s']
    by (auto simp: storage_inv_def property_inv_def)
next
  case (r_setFeeRecipient s sender recipient s')
  then show ?case using setFeeRecipient_InrD[of sender recipient s s']
    by (auto simp: storage_inv_def property_inv_def)
next
  case (r_createSellOrder s sender timestamp pid n price days s' oid)
  then show ?case using createSellOrder_InrD[of sender timestamp pid n price days s s' oid]
    by (auto simp: storage_inv_def property_inv_def)
next
  case (r_buyFromOrder s sender timestamp oid n s')
  then show ?case by (auto intro: buyFromOrder_inv)
next
  case (r_cancelSellOrder s sender oid s')
  then show ?case using cancelSellOrder_InrD[of sender oid s s']
    by (auto simp: storage_inv_def property_inv_def)
next
  case (r_token s t)
  then show ?case by (simp add: storage_inv_def property_inv_def)
next
  case (r_nft s f)
  then show ?case by (simp add: storage_inv_def property_inv_def)
next
  case (r_owner s a)
  then show ?case by (simp add: storage_inv_def property_inv_def)
qed

subsection \<open>Running the deployment\<close>

lemmas demo_defs = demo_token_def demo_deployed_def constructor_def zero_Property_def
  zero_Investment_def zero_SellOrder_def

lemmas run_defs = listProperty_def verifyProperty_def purchaseTokens_def createSellOrder_def
  buyFromOrder_def cancelSellOrder_def token_payment_def processBuyOrderPayment_def
  updateBuyOrderInvestments_def credit_investment_def distributeRentalIncome_def
  storage_after_def MIN_INVESTMENT_def Let_def

lemma demo_listed_run:
  "listProperty 2 1000 ''ipfs://demo'' (1000 * 10 ^ 18) 1000 Residential Low demo_deployed = Inr (demo_listed, 0)"
  by (simp add: demo_listed_def demo_defs run_defs arith_defs)

lemma demo_verified_run: "verifyProperty 1 0 demo_listed = Inr demo_verified"
  by (simp add: demo_verified_def demo_listed_def demo_defs run_defs arith_defs)

text \<open>The storage after the verification, after both purchases and after both offers, written out.\<close>

lemma demo_verified_snapshot:
  "demo_verified =
     \<lparr>tokenIdCounter = Suc 0, hrmToken = \<lparr>balances = (\<lambda>_. 0) (3 :=
     1000000000000000000000, 4 := 1000000000000000000000, 100 := 1000), allowances = (\<lambda>_
     _. 0) (3 := (\<lambda>_. 0)(100 := 1000000000000000000000), 4 := (\<lambda>_. 0)(100 :=
     1000000000000000000000)), totalSupply = 2000000000000000001000, paused = False, token_owner
     = Suc 0\<rparr>, properties = (\<lambda>_. \<lparr>property_id = 0, metadataURI = [],
     totalValue = 0, totalTokens = 0, availableTokens = 0, tokenPrice = 0, propertyOwner = 0,
     isActive = False, isVerified = False, createdAt = 0, propertyType = Residential, riskLevel =
     Low\<rparr>) (0 := \<lparr>property_id = 0, metadataURI = ''ipfs://demo'', totalValue =
     1000000000000000000000, totalTokens = 1000, availableTokens = 1000, tokenPrice =
     1000000000000000000, propertyOwner = 2, isActive = True, isVerified = True, createdAt =
     1000, propertyType = Residential, riskLevel = Low\<rparr>), investments = \<lambda>_ _.
     \<lparr>investor = 0, tokensOwned = 0, investmentAmount = 0, purchaseDate = 0\<rparr>,
     propertyInvestors = \<lambda>_. [], investorProperties = \<lambda>_. [], platformFeePercent
     = 250, feeRecipient = 9, sellOrders = \<lambda>_. \<lparr>order_id = 0, order_propertyId =
     0, seller = 0, tokensForSale = 0, pricePerToken = 0, totalPrice = 0, order_isActive = False,
     order_createdAt = 0, expiresAt = 0\<rparr>, propertySellOrders = \<lambda>_. [],
     userSellOrders = \<lambda>_. [], sellOrderCounter = 0, contract_owner = Suc 0, this = 100,
     nft_owners = (\<lambda>_. 0)(0 := 2), tokenURIs = (\<lambda>_. [])(0 :=
     ''ipfs://demo'')\<rparr>"
  by (simp add: demo_verified_def demo_listed_def demo_defs run_defs arith_defs)

lemma demo_first_sale_run: "purchaseTokens 3 2000 0 200 demo_verified = Inr demo_first_sale"
  by (simp add: demo_first_sale_def demo_verified_snapshot run_defs arith_defs token_defs)

lemma demo_sold_run: "purchaseTokens 4 3000 0 100 demo_first_sale = Inr demo_sold"
  by (simp add: demo_sold_def demo_first_sale_def demo_verified_snapshot run_defs arith_defs token_defs)

lemma demo_sold_snapshot:
  "demo_sold =
     \<lparr>tokenIdCounter = Suc 0, hrmToken = \<lparr>balances = (\<lambda>_. 0) (3 :=
     800000000000000000000, 4 := 900000000000000000000, 9 := 7500000000000000000, 100 := 1000, 2
     := 292500000000000000000), allowances = (\<lambda>_ _. 0) (3 := (\<lambda>_. 0)(100 :=
     800000000000000000000), 4 := (\<lambda>_. 0)(100 := 900000000000000000000)), totalSupply =
     2000000000000000001000, paused = False, token_owner = Suc 0\<rparr>, properties =
     (\<lambda>_. \<lparr>property_id = 0, metadataURI = [], totalValue = 0, totalTokens = 0,
     availableTokens = 0, tokenPrice = 0, propertyOwner = 0, isActive = False, isVerified =
     False, createdAt = 0, propertyType = Residential, riskLevel = Low\<rparr>) (0 :=
     \<lparr>property_id = 0, metadataURI = ''ipfs://demo'', totalValue = 1000000000000000000000,
     totalTokens = 1000, availableTokens = 700, tokenPrice = 1000000000000000000, propertyOwner =
     2, isActive = True, isVerified = True, createdAt = 1000, propertyType = Residential,
     riskLevel = Low\<rparr>), investments = (\<lambda>_ _. \<lparr>investor = 0, tokensOwned =
     0, investmentAmount = 0, purchaseDate = 0\<rparr>) (0 := (\<lambda>_. \<lparr>investor = 0,
     tokensOwned = 0, investmentAmount = 0, purchaseDate = 0\<rparr>) (3 := \<lparr>investor = 3,
     tokensOwned = 200, investmentAmount = 195000000000000000000, purchaseDate = 2000\<rparr>, 4
     := \<lparr>investor = 4, tokensOwned = 100, investmentAmount = 97500000000000000000,
     purchaseDate = 3000\<rparr>)), propertyInvestors = (\<lambda>_. [])(0 := [3, 4]),
     investorProperties = (\<lambda>_. [])(3 := [0], 4 := [0]), platformFeePercent = 250,
     feeRecipient = 9, sellOrders = \<lambda>_. \<lparr>order_id = 0, order_propertyId = 0,
     seller = 0, tokensForSale = 0, pricePerToken = 0, totalPrice = 0, order_isActive = False,
     order_createdAt = 0, expiresAt = 0\<rparr>, propertySellOrders = \<lambda>_. [],
     userSellOrders = \<lambda>_. [], sellOrderCounter = 0, contract_owner = Suc 0, this = 100,
     nft_owners = (\<lambda>_. 0)(0 := 2), tokenURIs = (\<lambda>_. [])(0 :=
     ''ipfs://demo'')\<rparr>"
  by (simp add: demo_sold_def demo_first_sale_def demo_verified_snapshot run_defs arith_defs token_defs)

lemma demo_first_order_run: "createSellOrder 3 4000 0 150 10 30 demo_sold = Inr (demo_first_order, 0)"
  by (simp add: demo_first_order_def demo_sold_snapshot run_defs arith_defs)

lemma demo_second_order_run: "createSellOrder 3 4000 0 150 10 30 demo_first_order = Inr (demo_second_order, 1)"
  by (simp add: demo_second_order_def demo_first_order_def demo_sold_snapshot run_defs arith_defs)

lemma demo_second_order_snapshot:
  "demo_second_order =
     \<lparr>tokenIdCounter = Suc 0, hrmToken = \<lparr>balances = (\<lambda>_. 0) (3 :=
     800000000000000000000, 4 := 900000000000000000000, 9 := 7500000000000000000, 100 := 1000, 2
     := 292500000000000000000), allowances = (\<lambda>_ _. 0) (3 := (\<lambda>_. 0)(100 :=
     800000000000000000000), 4 := (\<lambda>_. 0)(100 := 900000000000000000000)), totalSupply =
     2000000000000000001000, paused = False, token_owner = Suc 0\<rparr>, properties =
     (\<lambda>_. \<lparr>property_id = 0, metadataURI = [], totalValue = 0, totalTokens = 0,
     availableTokens = 0, tokenPrice = 0, propertyOwner = 0, isActive = False, isVerified =
     False, createdAt = 0, propertyType = Residential, riskLevel = Low\<rparr>) (0 :=
     \<lparr>property_id = 0, metadataURI = ''ipfs://demo'', totalValue = 1000000000000000000000,
     totalTokens = 1000, availableTokens = 700, tokenPrice = 1000000000000000000, propertyOwner =
     2, isActive = True, isVerified = True, createdAt = 1000, propertyType = Residential,
     riskLevel = Low\<rparr>), investments = (\<lambda>_ _. \<lparr>investor = 0, tokensOwned =
     0, investmentAmount = 0, purchaseDate = 0\<rparr>) (0 := (\<lambda>_. \<lparr>investor = 0,
     tokensOwned = 0, investmentAmount = 0, purchaseDate = 0\<rparr>) (3 := \<lparr>investor = 3,
     tokensOwned = 200, investmentAmount = 195000000000000000000, purchaseDate = 2000\<rparr>, 4
     := \<lparr>investor = 4, tokensOwned = 100, investmentAmount = 97500000000000000000,
     purchaseDate = 3000\<rparr>)), propertyInvestors = (\<lambda>_. [])(0 := [3, 4]),
     investorProperties = (\<lambda>_. [])(3 := [0], 4 := [0]), platformFeePercent = 250,
     feeRecipient = 9, sellOrders = (\<lambda>_. \<lparr>order_id = 0, order_propertyId = 0,
     seller = 0, tokensForSale = 0, pricePerToken = 0, totalPrice = 0, order_isActive = False,
     order_createdAt = 0, expiresAt = 0\<rparr>) (0 := \<lparr>order_id = 0, order_propertyId =
     0, seller = 3, tokensForSale = 150, pricePerToken = 10, totalPrice = 1500, order_isActive =
     True, order_createdAt = 4000, expiresAt = 2596000\<rparr>, Suc 0 := \<lparr>order_id = Suc
     0, order_propertyId = 0, seller = 3, tokensForSale = 150, pricePerToken = 10, totalPrice =
     1500, order_isActive = True, order_createdAt = 4000, expiresAt = 2596000\<rparr>),
     propertySellOrders = (\<lambda>_. [])(0 := [0, Suc 0]), userSellOrders = (\<lambda>_. [])(3
     := [0, Suc 0]), sellOrderCounter = Suc (Suc 0), contract_owner = Suc 0, this = 100,
     nft_owners = (\<lambda>_. 0)(0 := 2), tokenURIs = (\<lambda>_. [])(0 :=
     ''ipfs://demo'')\<rparr>"
  by (simp add: demo_second_order_def demo_first_order_def demo_sold_snapshot run_defs arith_defs)

lemma demo_filled_run: "buyFromOrder 4 5000 0 150 demo_second_order = Inr demo_filled"
  by (simp add: demo_filled_def demo_second_order_snapshot run_defs arith_defs token_defs)

lemma demo_this: "this demo_deployed = 100" "this demo_listed = 100" "this demo_verified = 100"
  "this demo_first_sale = 100" "this demo_sold = 100" "this demo_first_order = 100"
  "this demo_second_order = 100"
proof -
  show "this demo_deployed = 100" by (simp add: demo_defs)
  show "this demo_listed = 100" by (simp add: demo_listed_def demo_defs run_defs arith_defs)
  show "this demo_verified = 100" by (simp add: demo_verified_snapshot)
  show "this demo_first_sale = 100"
    by (simp add: demo_first_sale_def demo_verified_snapshot run_defs arith_defs token_defs)
  show "this demo_sold = 100" by (simp add: demo_sold_snapshot)
  show "this demo_first_order = 100"
    by (simp add: demo_first_order_def demo_sold_snapshot run_defs arith_defs)
  show "this demo_second_order = 100" by (simp add: demo_second_order_snapshot)
qed

lemma reachable_demo_deployed: "reachable demo_deployed"
  unfolding demo_deployed_def by (rule r_constructor) simp_all

lemma reachable_demo_listed: "reachable demo_listed"
  by (rule r_listProperty[OF reachable_demo_deployed _ _ demo_listed_run]) (simp_all add: demo_this)

lemma reachable_demo_verified: "reachable demo_verified"
  by (rule r_verifyProperty[OF reachable_demo_listed _ _ demo_verified_run]) (simp_all add: demo_this)

lemma reachable_demo_first_sale: "reachable demo_first_sale"
  by (rule r_purchaseTokens[OF reachable_demo_verified _ _ demo_first_sale_run]) (simp_all add: demo_this)

lemma reachable_demo_sold: "reachable demo_sold"
  by (rule r_purchaseTokens[OF reachable_demo_first_sale _ _ demo_sold_run]) (simp_all add: demo_this)

lemma reachable_demo_first_order: "reachable demo_first_order"
  by (rule r_createSellOrder[OF reachable_demo_sold _ _ demo_first_order_run]) (simp_all add: demo_this)

lemma reachable_demo_second_order: "reachable demo_second_order"
  by (rule r_createSellOrder[OF reachable_demo_first_order _ _ demo_second_order_run]) (simp_all add: demo_this)

lemma reachable_demo_filled: "reachable demo_filled"
  by (rule r_buyFromOrder[OF reachable_demo_second_order _ _ demo_filled_run]) (simp_all add: demo_this)

subsection \<open>Shares are conserved\<close>

lemma sum_support_list:
  fixes f :: "'a \<Rightarrow> nat"
  assumes "distinct xs" and "\<forall>a. f a \<noteq> 0 \<longrightarrow> a \<in> set xs"
  shows "finite {a. f a \<noteq> 0}" and "(\<Sum>a | f a \<noteq> 0. f a) = sum_list (map f xs)"
proof -
  have sub: "{a. f a \<noteq> 0} \<subseteq> set xs" using assms(2) by auto
  then show "finite {a. f a \<noteq> 0}" by (rule finite_subset) simp
  have "sum_list (map f xs) = sum f (set xs)"
    using assms(1) by (simp add: sum_list_distinct_conv_sum_set)
  also have "\<dots> = sum f {a. f a \<noteq> 0}"
    by (rule sum.mono_neutral_right) (use sub in auto)
  finally show "(\<Sum>a | f a \<noteq> 0. f a) = sum_list (map f xs)" by simp
qed

lemma reachable_conservation:
  assumes "reachable s"
  shows "availableTokens (properties s pid) \<le> totalTokens (properties s pid)"
    and "finite {a. tokensOwned (investments s pid a) \<noteq> 0}"
    and "(\<Sum>a | tokensOwned (investments s pid a) \<noteq> 0. tokensOwned (investments s pid a)) =
           totalTokens (properties s pid) - availableTokens (properties s pid)"
proof -
  have pi: "property_inv s pid" using reachable_storage_inv[OF assms] by (simp add: storage_inv_def)
  then have d: "distinct (propertyInvestors s pid)"
    and c: "\<forall>a. tokensOwned (investments s pid a) \<noteq> 0 \<longrightarrow> a \<in> set (propertyInvestors s pid)"
    and g: "sum_list (map (\<lambda>a. tokensOwned (investments s pid a)) (propertyInvestors s pid)) =
       totalTokens (properties s pid) - availableTokens (properties s pid)"
    by (auto simp: property_inv_def)
  show "availableTokens (properties s pid) \<le> totalTokens (properties s pid)"
    using pi by (simp add: property_inv_def)
  show "finite {a. tokensOwned (investments s pid a) \<noteq> 0}"
    by (rule sum_support_list(1)[OF d c])
  show "(\<Sum>a | tokensOwned (investments s pid a) \<noteq> 0. tokensOwned (investments s pid a)) =
           totalTokens (properties s pid) - availableTokens (properties s pid)"
    using sum_support_list(2)[OF d c] g by simp
qed

lemma order_calls_keep_holdings:
  "createSellOrder c ts q n price days s = Inr (s1, oid) \<Longrightarrow>
     investments s1 = investments s \<and> properties s1 = properties s"
  "cancelSellOrder c oid' s = Inr s2 \<Longrightarrow>
     investments s2 = investments s \<and> properties s2 = properties s"
  by (auto dest!: createSellOrder_InrD cancelSellOrder_InrD)

lemma purchase_moves_shares:
  assumes "purchaseTokens c ts q n s = Inr s3"
  shows "\<forall>p a. tokensOwned (investments s3 p a) =
            tokensOwned (investments s p a) + (if p = q \<and> a = c then n else 0)"
    and "\<forall>p. availableTokens (properties s3 p) + (if p = q then n else 0) =
            availableTokens (properties s p)"
    and "\<forall>p. totalTokens (properties s3 p) = totalTokens (properties s p)"
  using purchaseTokens_InrD[OF assms] by (auto simp: credited_def)

lemma fulfilment_moves_shares:
  assumes "buyFromOrder c ts oid n s = Inr s4"
  shows "properties s4 = properties s"
    and "c \<noteq> seller (sellOrders s oid)"
    and "n \<le> tokensOwned (investments s (order_propertyId (sellOrders s oid)) (seller (sellOrders s oid)))"
    and "\<forall>p a. tokensOwned (investments s4 p a) =
           (if p = order_propertyId (sellOrders s oid) \<and> a = c
              then tokensOwned (investments s p a) + n
            else if p = order_propertyId (sellOrders s oid) \<and> a = seller (sellOrders s oid)
              then tokensOwned (investments s p a) - n
            else tokensOwned (investments s p a))"
  using buyFromOrder_InrD[OF assms] by (auto simp: credited_def Let_def)

lemma buyFromOrder_orders:
  assumes "buyFromOrder c ts oid n s = Inr s'"
  shows "oid' \<noteq> oid \<Longrightarrow> sellOrders s' oid' = sellOrders s oid'"
    and "seller (sellOrders s' oid') = seller (sellOrders s oid')"
    and "order_propertyId (sellOrders s' oid') = order_propertyId (sellOrders s oid')"
  using buyFromOrder_InrD[OF assms] by (auto simp: Let_def credited_def)

lemma createSellOrder_orders:
  assumes "createSellOrder c ts q n price days s = Inr (s', oid)"
  shows "seller (sellOrders s' oid) = c" and "order_propertyId (sellOrders s' oid) = q"
    and "order_isActive (sellOrders s' oid)" and "tokensForSale (sellOrders s' oid) = n"
    and "oid' \<noteq> oid \<Longrightarrow> sellOrders s' oid' = sellOrders s oid'"
  using createSellOrder_InrD[OF assms] by auto

lemma demo_cancelled_run: "cancelSellOrder 3 1 demo_filled = Inr demo_cancelled"
proof -
  have "sellOrders demo_filled 1 = sellOrders demo_second_order 1"
    using buyFromOrder_orders(1)[OF demo_filled_run, of 1] by simp
  moreover have "seller (sellOrders demo_second_order 1) = 3 \<and> order_isActive (sellOrders demo_second_order 1)"
    using createSellOrder_orders[OF demo_second_order_run] by simp
  ultimately show ?thesis
    by (simp add: demo_cancelled_def cancelSellOrder_def storage_after_def Let_def)
qed

lemma demo_sold_property:
  "totalTokens (properties demo_sold 0) = 1000" "availableTokens (properties demo_sold 0) = 700"
  by (simp_all add: demo_sold_snapshot)

lemma demo_filled_property: "properties demo_filled = properties demo_sold"
  using fulfilment_moves_shares(1)[OF demo_filled_run]
    order_calls_keep_holdings(1)[OF demo_second_order_run]
    order_calls_keep_holdings(1)[OF demo_first_order_run] by simp

text \<open>
  Claim C9. In every storage the contract can reach, and for every property, the shares
  held by all accounts add up to \<open>totalTokens - availableTokens\<close> (only finitely many
  accounts hold any, and \<open>availableTokens\<close> never exceeds \<open>totalTokens\<close>). A successful
  \<open>createSellOrder\<close> or \<open>cancelSellOrder\<close> changes no holding and no property; a
  successful \<open>purchaseTokens\<close> adds the purchased shares to the buyer's holding of that
  property alone and takes the same number from the property's \<open>availableTokens\<close>; a
  successful \<open>buyFromOrder\<close> moves the shares from the seller's holding to the buyer's,
  two different accounts, and changes no property.
\<close>

theorem share_conservation:
  assumes "reachable s"
  shows "availableTokens (properties s pid) \<le> totalTokens (properties s pid)
     \<and> finite {a. tokensOwned (investments s pid a) \<noteq> 0}
     \<and> (\<Sum>a | tokensOwned (investments s pid a) \<noteq> 0. tokensOwned (investments s pid a)) =
           totalTokens (properties s pid) - availableTokens (properties s pid)
     \<and> (createSellOrder c1 ts1 q1 n1 price days sa = Inr (sa', oid1) \<longrightarrow>
           investments sa' = investments sa \<and> properties sa' = properties sa)
     \<and> (cancelSellOrder c2 oid2 sb = Inr sb' \<longrightarrow>
           investments sb' = investments sb \<and> properties sb' = properties sb)
     \<and> (purchaseTokens c3 ts3 q3 n3 sc = Inr sc' \<longrightarrow>
           (\<forall>p a. tokensOwned (investments sc' p a) =
              tokensOwned (investments sc p a) + (if p = q3 \<and> a = c3 then n3 else 0)) \<and>
           (\<forall>p. availableTokens (properties sc' p) + (if p = q3 then n3 else 0) =
              availableTokens (properties sc p)) \<and>
           (\<forall>p. totalTokens (properties sc' p) = totalTokens (properties sc p)))
     \<and> (buyFromOrder c4 ts4 oid4 n4 sd = Inr sd' \<longrightarrow>
           properties sd' = properties sd \<and> c4 \<noteq> seller (sellOrders sd oid4) \<and>
           n4 \<le> tokensOwned (investments sd (order_propertyId (sellOrders sd oid4)) (seller (sellOrders sd oid4))) \<and>
           (\<forall>p a. tokensOwned (investments sd' p a) =
             (if p = order_propertyId (sellOrders sd oid4) \<and> a = c4
                then tokensOwned (investments sd p a) + n4
              else if p = order_propertyId (sellOrders sd oid4) \<and> a = seller (sellOrders sd oid4)
                then tokensOwned (investments sd p a) - n4
              else tokensOwned (investments sd p a))))"
proof (intro conjI impI)
  show "availableTokens (properties s pid) \<le> totalTokens (properties s pid)"
    by (rule reachable_conservation(1)[OF assms])
  show "finite {a. tokensOwned (investments s pid a) \<noteq> 0}"
    by (rule reachable_conservation(2)[OF assms])
  show "(\<Sum>a | tokensOwned (investments s pid a) \<noteq> 0. tokensOwned (investments s pid a)) =
           totalTokens (properties s pid) - availableTokens (properties s pid)"
    by (rule reachable_conservation(3)[OF assms])
qed (simp_all add: order_calls_keep_holdings purchase_moves_shares fulfilment_moves_shares)

text \<open>
  The theorem on the deployment: after both purchases and the filled order the holdings
  add up to the 300 shares sold, and each kind of call is one the deployment made.
\<close>

theorem share_conservation_witness:
  "(\<Sum>a | tokensOwned (investments demo_filled 0 a) \<noteq> 0. tokensOwned (investments demo_filled 0 a)) = 300
   \<and> investments demo_first_order = investments demo_sold
   \<and> investments demo_cancelled = investments demo_filled
   \<and> availableTokens (properties demo_first_sale 0) + 200 = availableTokens (properties demo_verified 0)
   \<and> tokensOwned (investments demo_first_sale 0 3) = tokensOwned (investments demo_verified 0 3) + 200
   \<and> properties demo_filled = properties demo_second_order
   \<and> tokensOwned (investments demo_filled 0 4) = tokensOwned (investments demo_second_order 0 4) + 150
   \<and> tokensOwned (investments demo_filled 0 3) = tokensOwned (investments demo_second_order 0 3) - 150"
proof -
  have o0: "order_propertyId (sellOrders demo_second_order 0) = 0 \<and> seller (sellOrders demo_second_order 0) = 3"
    using createSellOrder_orders(5)[OF demo_second_order_run, of 0]
      createSellOrder_orders(1,2)[OF demo_first_order_run] by simp
  note w = share_conservation[OF reachable_demo_filled, of 0
      3 4000 0 150 10 30 demo_sold demo_first_order 0
      3 1 demo_filled demo_cancelled
      3 2000 0 200 demo_verified demo_first_sale
      4 5000 0 150 demo_second_order demo_filled]
  note w3 = w[THEN conjunct2, THEN conjunct2]
  note w4 = w3[THEN conjunct2]
  note w5 = w4[THEN conjunct2]
  note w6 = w5[THEN conjunct2]
  note w7 = w6[THEN conjunct2]
  have total: "(\<Sum>a | tokensOwned (investments demo_filled 0 a) \<noteq> 0.
                  tokensOwned (investments demo_filled 0 a)) = 300"
    using w3[THEN conjunct1] by (simp add: demo_filled_property demo_sold_property)
  have created: "investments demo_first_order = investments demo_sold"
    using w4[THEN conjunct1] demo_first_order_run by simp
  have cancelled: "investments demo_cancelled = investments demo_filled"
    using w5[THEN conjunct1] demo_cancelled_run by simp
  have purchased: "availableTokens (properties demo_first_sale 0) + 200 =
        availableTokens (properties demo_verified 0)
      \<and> tokensOwned (investments demo_first_sale 0 3) =
        tokensOwned (investments demo_verified 0 3) + 200"
  proof -
    note p = w6[THEN conjunct1, rule_format, OF demo_first_sale_run]
    show ?thesis
      using p[THEN conjunct1, rule_format, of 0 3] p[THEN conjunct2, THEN conjunct1, rule_format, of 0]
      by simp
  qed
  have filled: "properties demo_filled = properties demo_second_order
      \<and> tokensOwned (investments demo_filled 0 4) =
          tokensOwned (investments demo_second_order 0 4) + 150
      \<and> tokensOwned (investments demo_filled 0 3) =
          tokensOwned (investments demo_second_order 0 3) - 150"
  proof -
    note p = w7[rule_format, OF demo_filled_run]
    note q = p[THEN conjunct2, THEN conjunct2, THEN conjunct2, rule_format]
    show ?thesis using p[THEN conjunct1] q[of 0 4] q[of 0 3] o0 by simp
  qed
  show ?thesis using total created cancelled purchased filled by blast
qed

subsection \<open>Distributing rental income\<close>

lemma then_do_Inl_iff:
  "then_do m f = Inl e \<longleftrightarrow> m = Inl e \<or> (\<exists>x. m = Inr x \<and> f x = Inl e)"
  by (cases m) (simp_all add: then_do_def)

lemma transfer_not_div0: "transfer a b n t \<noteq> Inl Panic_DivisionByZero"
  by (simp add: token_defs then_do_def Let_def)

lemma distribute_loop_not_div0:
  "0 < td \<Longrightarrow> distribute_loop self h income td xs t \<noteq> Inl Panic_DivisionByZero"
proof (induction xs arbitrary: t)
  case Nil
  then show ?case by simp
next
  case (Cons a xs)
  then show ?case
    by (auto simp: Let_def then_do_Inl_iff checked_mul_def checked_div_def transfer_not_div0)
qed

lemma reachable_investors_sold:
  assumes "reachable s" and "propertyInvestors s pid \<noteq> []"
  shows "availableTokens (properties s pid) < totalTokens (properties s pid)"
  using reachable_storage_inv[OF assms(1)] assms(2)
  by (auto simp: storage_inv_def property_inv_def)

lemma reachable_distribute_not_div0:
  assumes "reachable s"
  shows "distributeRentalIncome sender pid income s \<noteq> Inl Panic_DivisionByZero"
proof (cases "propertyInvestors s pid = []")
  case True
  then show ?thesis
    unfolding distributeRentalIncome_def Let_def
    by (auto simp: then_do_Inl_iff checked_sub_def)
next
  case False
  from reachable_investors_sold[OF assms False]
  have "0 < totalTokens (properties s pid) - availableTokens (properties s pid)" by simp
  then show ?thesis
    unfolding distributeRentalIncome_def Let_def
    by (auto simp: then_do_Inl_iff checked_sub_def distribute_loop_not_div0)
qed

text \<open>
  Claim C10. In every storage the contract can reach, a property whose investor index is
  not empty has sold at least one share (\<open>availableTokens < totalTokens\<close>); so a property
  that has sold nothing has an empty index and the loop body of \<open>distributeRentalIncome\<close>
  is not entered for it, and no call of \<open>distributeRentalIncome\<close> ends in the panic of a
  division by zero.
\<close>

theorem distribution_never_divides_by_zero:
  assumes "reachable s"
  shows "(propertyInvestors s pid \<noteq> [] \<longrightarrow>
            availableTokens (properties s pid) < totalTokens (properties s pid))
       \<and> (availableTokens (properties s pid) = totalTokens (properties s pid) \<longrightarrow>
            propertyInvestors s pid = [])
       \<and> distributeRentalIncome sender pid income s \<noteq> Inl Panic_DivisionByZero"
  using reachable_investors_sold[OF assms, of pid] reachable_distribute_not_div0[OF assms, of sender pid income]
  by (cases "propertyInvestors s pid = []") auto

lemma distribute_loop_balances:
  assumes "distribute_loop self h income td xs t = Inr t'" and "distinct xs" and "self \<notin> set xs"
  shows "(\<forall>a. a \<noteq> self \<longrightarrow> balances t' a =
            balances t a + (if a \<in> set xs then income * tokensOwned (h a) div td else 0))
       \<and> balances t' self + sum_list (map (\<lambda>a. income * tokensOwned (h a) div td) xs) = balances t self"
  using assms
proof (induction xs arbitrary: t)
  case Nil
  then show ?case by simp
next
  case (Cons x xs)
  show ?case
  proof (cases "0 < tokensOwned (h x)")
    case True
    with Cons.prems(1) obtain t1 where
      tr: "transfer self x (income * tokensOwned (h x) div td) t = Inr t1" and
      rest: "distribute_loop self h income td xs t1 = Inr t'"
      by (auto simp: Let_def then_do_Inr_iff checked_Inr_iff)
    from Cons.prems have d: "distinct xs" "self \<notin> set xs" "x \<noteq> self" "x \<notin> set xs" by auto
    note ih = Cons.IH[OF rest d(1,2)]
    from tr have b1: "balances t1 = ((balances t)(self := balances t self - income * tokensOwned (h x) div td))
          (x := balances t x + income * tokensOwned (h x) div td)"
      and le: "income * tokensOwned (h x) div td \<le> balances t self"
      using d(3) by (auto simp: transfer_Inr_iff)
    show ?thesis using ih b1 le d by auto
  next
    case False
    with Cons.prems(1) have rest: "distribute_loop self h income td xs t = Inr t'" by simp
    from Cons.prems have d: "distinct xs" "self \<notin> set xs" "x \<noteq> self" "x \<notin> set xs" by auto
    note ih = Cons.IH[OF rest d(1,2)]
    show ?thesis using ih False d by auto
  qed
qed

lemma div_add_div_le: "a div d + b div d \<le> (a + b) div (d::nat)"
proof (cases "d = 0")
  case True
  then show ?thesis by simp
next
  case False
  have "(a div d + b div d) * d \<le> a + b"
    by (simp add: add_mult_distrib add_mono)
  then show ?thesis using False by (simp add: less_eq_div_iff_mult_less_eq)
qed

lemma sum_list_div_le:
  "sum_list (map (\<lambda>a. c * f a div d) xs) \<le> c * sum_list (map f xs) div (d::nat)"
proof (induction xs)
  case Nil
  then show ?case by simp
next
  case (Cons x xs)
  have "c * f x div d + sum_list (map (\<lambda>a. c * f a div d) xs)
          \<le> c * f x div d + c * sum_list (map f xs) div d"
    using Cons by simp
  also have "\<dots> \<le> (c * f x + c * sum_list (map f xs)) div d" by (rule div_add_div_le)
  finally show ?case by (simp add: distrib_left)
qed

lemma reachable_distribution:
  assumes "reachable s" and "distributeRentalIncome sender pid income s = Inr s'"
    and "availableTokens (properties s pid) < totalTokens (properties s pid)"
  shows "(\<forall>a. a \<noteq> this s \<longrightarrow> balances (hrmToken s') a = balances (hrmToken s) a +
            income * tokensOwned (investments s pid a) div
              (totalTokens (properties s pid) - availableTokens (properties s pid)))"
    and "balances (hrmToken s') (this s) +
           sum_list (map (\<lambda>a. income * tokensOwned (investments s pid a) div
              (totalTokens (properties s pid) - availableTokens (properties s pid)))
              (propertyInvestors s pid)) = balances (hrmToken s) (this s)"
    and "sum_list (map (\<lambda>a. income * tokensOwned (investments s pid a) div
              (totalTokens (properties s pid) - availableTokens (properties s pid)))
              (propertyInvestors s pid)) \<le> income"
    and "distinct (propertyInvestors s pid)"
    and "\<forall>a. 0 < tokensOwned (investments s pid a) \<longrightarrow> a \<in> set (propertyInvestors s pid)"
proof -
  let ?xs = "propertyInvestors s pid" and ?h = "investments s pid"
  let ?td = "totalTokens (properties s pid) - availableTokens (properties s pid)"
  have pi: "property_inv s pid" using reachable_storage_inv[OF assms(1)] by (simp add: storage_inv_def)
  then have d: "distinct ?xs" and th: "this s \<notin> set ?xs"
    and c: "\<forall>a. 0 < tokensOwned (?h a) \<longrightarrow> a \<in> set ?xs"
    and g: "sum_list (map (\<lambda>a. tokensOwned (?h a)) ?xs) = ?td"
    by (auto simp: property_inv_def)
  from distributeRentalIncome_InrD[OF assms(2)] obtain t1 where
    loop: "distribute_loop (this s) ?h income ?td ?xs (hrmToken s) = Inr t1" and s': "s' = s\<lparr>hrmToken := t1\<rparr>"
    by auto
  note lb = distribute_loop_balances[OF loop d th]
  have zero: "income * tokensOwned (?h a) div ?td = 0" if "a \<notin> set ?xs" for a
  proof -
    have "tokensOwned (?h a) = 0" using c that by (cases "tokensOwned (?h a)") auto
    then show ?thesis by simp
  qed
  show "\<forall>a. a \<noteq> this s \<longrightarrow> balances (hrmToken s') a = balances (hrmToken s) a +
            income * tokensOwned (?h a) div ?td"
    using lb zero unfolding s' by auto
  show "balances (hrmToken s') (this s) + sum_list (map (\<lambda>a. income * tokensOwned (?h a) div ?td) ?xs)
          = balances (hrmToken s) (this s)"
    using lb unfolding s' by simp
  have "sum_list (map (\<lambda>a. income * tokensOwned (?h a) div ?td) ?xs)
          \<le> income * sum_list (map (\<lambda>a. tokensOwned (?h a)) ?xs) div ?td"
    by (rule sum_list_div_le)
  also have "\<dots> = income" using g assms(3) by simp
  finally show "sum_list (map (\<lambda>a. income * tokensOwned (?h a) div ?td) ?xs) \<le> income" .
  show "distinct ?xs" by (rule d)
  show "\<forall>a. 0 < tokensOwned (?h a) \<longrightarrow> a \<in> set ?xs" by (rule c)
qed

lemma demo_sold_holdings:
  "tokensOwned (investments demo_sold 0 3) = 200" "tokensOwned (investments demo_sold 0 4) = 100"
  "propertyInvestors demo_sold 0 = [3, 4]"
  by (simp_all add: demo_sold_snapshot)

lemma demo_distributed_run: "distributeRentalIncome 1 0 1000 demo_sold = Inr demo_distributed"
  by (simp add: demo_distributed_def demo_sold_snapshot run_defs arith_defs token_defs)

text \<open>
  Claim C3. After a successful \<open>distributeRentalIncome\<close> for a property with at least
  one sold share, in a storage the contract can reach: the investor index has no
  duplicates and contains every account that holds shares; the token balance of every
  account other than the contract has grown by exactly
  \<open>totalIncome * tokensOwned / (totalTokens - availableTokens)\<close>, rounded down (which is
  nothing for an account without shares), so nobody is paid twice; the contract's balance
  has shrunk by the sum of these payouts; and that sum is at most \<open>totalIncome\<close>.
\<close>

theorem rental_income_pro_rata:
  assumes "reachable s" and "distributeRentalIncome sender pid income s = Inr s'"
    and "availableTokens (properties s pid) < totalTokens (properties s pid)"
  shows "distinct (propertyInvestors s pid)
     \<and> (\<forall>a. 0 < tokensOwned (investments s pid a) \<longrightarrow> a \<in> set (propertyInvestors s pid))
     \<and> (\<forall>a. a \<noteq> this s \<longrightarrow> balances (hrmToken s') a = balances (hrmToken s) a +
            income * tokensOwned (investments s pid a) div
              (totalTokens (properties s pid) - availableTokens (properties s pid)))
     \<and> balances (hrmToken s') (this s) +
           sum_list (map (\<lambda>a. income * tokensOwned (investments s pid a) div
              (totalTokens (properties s pid) - availableTokens (properties s pid)))
              (propertyInvestors s pid)) = balances (hrmToken s) (this s)
     \<and> sum_list (map (\<lambda>a. income * tokensOwned (investments s pid a) div
              (totalTokens (properties s pid) - availableTokens (properties s pid)))
              (propertyInvestors s pid)) \<le> income"
  using reachable_distribution[OF assms] by blast

text \<open>
  The theorem on the deployment, where 300 shares are sold and held 200 to 100: an income
  of 1000 pays 666 and 333, and the contract keeps the remaining unit.
\<close>

theorem rental_income_pro_rata_witness:
  "balances (hrmToken demo_distributed) 3 = balances (hrmToken demo_sold) 3 + 666
   \<and> balances (hrmToken demo_distributed) 4 = balances (hrmToken demo_sold) 4 + 333
   \<and> balances (hrmToken demo_distributed) 100 + 999 = balances (hrmToken demo_sold) 100"
proof -
  have sold: "availableTokens (properties demo_sold 0) < totalTokens (properties demo_sold 0)"
    by (simp add: demo_sold_property)
  note w = rental_income_pro_rata[OF reachable_demo_sold demo_distributed_run sold]
  note paid = w[THEN conjunct2, THEN conjunct2, THEN conjunct1, rule_format]
  note kept = w[THEN conjunct2, THEN conjunct2, THEN conjunct2, THEN conjunct1]
  show ?thesis
    using paid[of 3] paid[of 4] kept
    by (simp add: demo_this demo_sold_property demo_sold_holdings)
qed

text \<open>The division safety theorem on the deployment after both purchases.\<close>

theorem distribution_never_divides_by_zero_witness:
  "propertyInvestors demo_sold 0 \<noteq> []
   \<and> availableTokens (properties demo_sold 0) < totalTokens (properties demo_sold 0)
   \<and> distributeRentalIncome 1 0 1000 demo_sold \<noteq> Inl Panic_DivisionByZero"
  using distribution_never_divides_by_zero[OF reachable_demo_sold, of 0 1 1000]
  by (simp add: demo_sold_holdings)

lemma listProperty_frame:
  assumes "listProperty sender ts uri v n ty r s = Inr (s', pid)"
  shows "contract_owner s' = contract_owner s" and "tokenIdCounter s' = tokenIdCounter s + 1"
    and "this s' = this s"
  using listProperty_InrD[OF assms] by auto

subsection \<open>Verifying twice\<close>

text \<open>
  Claim C8. For every existing property, \<open>verifyProperty\<close> called by the owner succeeds
  and leaves the property active and verified, and a second call on the resulting
  storage succeeds and returns that same storage: no field of any record changes.
\<close>

theorem verifyProperty_idempotent:
  assumes "sender = contract_owner s" and "pid < tokenIdCounter s"
  shows "\<not> isl (verifyProperty sender pid s)
     \<and> isActive (properties (storage_after s (verifyProperty sender pid s)) pid)
     \<and> isVerified (properties (storage_after s (verifyProperty sender pid s)) pid)
     \<and> verifyProperty sender pid (storage_after s (verifyProperty sender pid s))
          = Inr (storage_after s (verifyProperty sender pid s))"
  using assms by (simp add: verifyProperty_def storage_after_def)

text \<open>The theorem on the listed property of the deployment.\<close>

theorem verifyProperty_idempotent_witness:
  "verifyProperty 1 0 demo_listed = Inr demo_verified
   \<and> isActive (properties demo_verified 0) \<and> isVerified (properties demo_verified 0)
   \<and> verifyProperty 1 0 demo_verified = Inr demo_verified"
proof -
  have h: "(1::nat) = contract_owner demo_listed" "0 < tokenIdCounter demo_listed"
    using listProperty_frame(1,2)[OF demo_listed_run]
    by (simp_all add: demo_deployed_def constructor_def)
  show ?thesis
    using verifyProperty_idempotent[OF h] demo_verified_run
    by (simp add: storage_after_def)
qed

subsection \<open>Orders beyond the seller's holding\<close>

lemma buyFromOrder_needs_holding:
  assumes "tokensOwned (investments s (order_propertyId (sellOrders s oid)) (seller (sellOrders s oid))) < n"
  shows "isl (buyFromOrder sender ts oid n s)"
  using assms by (simp add: buyFromOrder_def Let_def)

lemma buyFromOrder_debits_seller:
  assumes "buyFromOrder c ts oid n s = Inr s'"
  shows "tokensOwned (investments s' (order_propertyId (sellOrders s oid)) (seller (sellOrders s oid))) + n
          = tokensOwned (investments s (order_propertyId (sellOrders s oid)) (seller (sellOrders s oid)))"
  using fulfilment_moves_shares[OF assms] by simp

lemma demo_topped_up_run: "purchaseTokens 3 6000 0 100 demo_filled = Inr demo_topped_up"
  by (simp add: demo_topped_up_def demo_filled_def demo_second_order_snapshot run_defs arith_defs
      token_defs)

lemma demo_both_filled_run: "buyFromOrder 4 7000 1 150 demo_topped_up = Inr demo_both_filled"
  by (simp add: demo_both_filled_def demo_topped_up_def demo_filled_def demo_second_order_snapshot
      run_defs arith_defs token_defs)

lemma demo_both_filled_orders:
  "sellOrders demo_both_filled 0 = (sellOrders demo_second_order 0)\<lparr>tokensForSale := 0, order_isActive := False\<rparr>"
  "sellOrders demo_both_filled 1 = (sellOrders demo_second_order 1)\<lparr>tokensForSale := 0, order_isActive := False\<rparr>"
  by (simp_all add: demo_both_filled_def demo_topped_up_def demo_filled_def demo_second_order_snapshot
      run_defs arith_defs token_defs)

text \<open>
  Claim C1, as the contract has it. A \<open>buyFromOrder\<close> call for more shares than the
  seller holds at that moment fails and leaves the storage as it was, whatever the order
  still offers. Hence, of two orders of one seller on one property, after a successful
  fill of \<open>n1\<close> shares from one, a fill of \<open>n2\<close> shares from the other fails in every
  later storage in which the seller holds no more than right after the first fill,
  whenever \<open>n1 + n2\<close> exceeds what the seller held before the first fill. Nothing is
  said of a seller who acquires shares between the two fills.
\<close>

theorem over_committed_orders_cannot_both_fill:
  "(tokensOwned (investments s (order_propertyId (sellOrders s oid)) (seller (sellOrders s oid))) < n \<longrightarrow>
      isl (buyFromOrder sender ts oid n s)
      \<and> storage_after s (buyFromOrder sender ts oid n s) = s)
   \<and> (buyFromOrder b1 ts1 o1 n1 s = Inr s1
       \<and> seller (sellOrders s o2) = seller (sellOrders s o1)
       \<and> order_propertyId (sellOrders s o2) = order_propertyId (sellOrders s o1)
       \<and> tokensOwned (investments s (order_propertyId (sellOrders s o1)) (seller (sellOrders s o1))) < n1 + n2
       \<and> seller (sellOrders s2 o2) = seller (sellOrders s o1)
       \<and> order_propertyId (sellOrders s2 o2) = order_propertyId (sellOrders s o1)
       \<and> tokensOwned (investments s2 (order_propertyId (sellOrders s o1)) (seller (sellOrders s o1)))
           \<le> tokensOwned (investments s1 (order_propertyId (sellOrders s o1)) (seller (sellOrders s o1))) \<longrightarrow>
      isl (buyFromOrder b2 ts2 o2 n2 s2)
      \<and> storage_after s2 (buyFromOrder b2 ts2 o2 n2 s2) = s2)"
proof (intro conjI impI)
  assume a: "tokensOwned (investments s (order_propertyId (sellOrders s oid)) (seller (sellOrders s oid))) < n"
  from buyFromOrder_needs_holding[OF a]
  show "isl (buyFromOrder sender ts oid n s)" .
  then show "storage_after s (buyFromOrder sender ts oid n s) = s"
    by (cases "buyFromOrder sender ts oid n s") (simp_all add: storage_after_def)
next
  assume a: "buyFromOrder b1 ts1 o1 n1 s = Inr s1
       \<and> seller (sellOrders s o2) = seller (sellOrders s o1)
       \<and> order_propertyId (sellOrders s o2) = order_propertyId (sellOrders s o1)
       \<and> tokensOwned (investments s (order_propertyId (sellOrders s o1)) (seller (sellOrders s o1))) < n1 + n2
       \<and> seller (sellOrders s2 o2) = seller (sellOrders s o1)
       \<and> order_propertyId (sellOrders s2 o2) = order_propertyId (sellOrders s o1)
       \<and> tokensOwned (investments s2 (order_propertyId (sellOrders s o1)) (seller (sellOrders s o1)))
           \<le> tokensOwned (investments s1 (order_propertyId (sellOrders s o1)) (seller (sellOrders s o1)))"
  then have run: "buyFromOrder b1 ts1 o1 n1 s = Inr s1" by simp
  have "tokensOwned (investments s2 (order_propertyId (sellOrders s2 o2)) (seller (sellOrders s2 o2))) < n2"
    using buyFromOrder_debits_seller[OF run] a by simp
  from buyFromOrder_needs_holding[OF this]
  show l: "isl (buyFromOrder b2 ts2 o2 n2 s2)" .
  then show "storage_after s2 (buyFromOrder b2 ts2 o2 n2 s2) = s2"
    by (cases "buyFromOrder b2 ts2 o2 n2 s2") (simp_all add: storage_after_def)
qed

text \<open>
  The theorem on the deployment: account 3 held 200 shares and offered 150 twice; after
  the first order is filled it holds 50, the second order still offers 150 shares and is
  active, and neither filling it nor taking 51 shares from it succeeds.
\<close>

theorem over_committed_orders_cannot_both_fill_witness:
  "tokensOwned (investments demo_filled 0 3) = 50
   \<and> tokensForSale (sellOrders demo_filled 1) = 150
   \<and> order_isActive (sellOrders demo_filled 1)
   \<and> isl (buyFromOrder 4 5000 1 150 demo_filled)
   \<and> isl (buyFromOrder 4 5000 1 51 demo_filled)
   \<and> storage_after demo_filled (buyFromOrder 4 5000 1 150 demo_filled) = demo_filled"
proof -
  have o1: "sellOrders demo_filled 1 = sellOrders demo_second_order 1"
    using buyFromOrder_orders(1)[OF demo_filled_run, of 1] by simp
  note c2 = createSellOrder_orders[OF demo_second_order_run]
  have o0: "order_propertyId (sellOrders demo_second_order 0) = 0 \<and> seller (sellOrders demo_second_order 0) = 3"
    using createSellOrder_orders(5)[OF demo_second_order_run, of 0]
      createSellOrder_orders(1,2)[OF demo_first_order_run] by simp
  have held: "tokensOwned (investments demo_second_order 0 3) = 200"
    using order_calls_keep_holdings(1)[OF demo_second_order_run]
      order_calls_keep_holdings(1)[OF demo_first_order_run] demo_sold_holdings by simp
  have left: "tokensOwned (investments demo_filled 0 3) = 50"
    using buyFromOrder_debits_seller[OF demo_filled_run] o0 held by simp
  note both = over_committed_orders_cannot_both_fill[where s=demo_second_order and oid=0 and n=150
      and sender=4 and ts=5000 and ?b1.0=4 and ?ts1.0=5000 and ?o1.0=0 and ?n1.0=150
      and ?s1.0=demo_filled and ?s2.0=demo_filled and ?o2.0=1 and ?n2.0=150 and ?b2.0=4
      and ?ts2.0=5000, THEN conjunct2, rule_format]
  note one = over_committed_orders_cannot_both_fill[where s=demo_filled and oid=1 and n=51
      and sender=4 and ts=5000, THEN conjunct1, rule_format]
  have second: "isl (buyFromOrder 4 5000 1 150 demo_filled)
      \<and> storage_after demo_filled (buyFromOrder 4 5000 1 150 demo_filled) = demo_filled"
    using both demo_filled_run o0 o1 c2(1-4) held by simp
  have partial: "isl (buyFromOrder 4 5000 1 51 demo_filled)"
    using one o1 c2(1,2) left by simp
  show ?thesis using left o1 c2(3,4) second partial by simp
qed

text \<open>
  Both orders filled in full. In a storage the contract can reach, account 3 holds 200
  shares of property 0 and has two active orders on it of 150 shares each. Account 4
  fills the first, account 3 buys 100 more shares from the property, and account 4
  fills the second: both orders end with nothing left for sale and inactive.
\<close>

theorem topped_up_seller_fills_both_orders_counterexample:
  "reachable demo_second_order
   \<and> tokensOwned (investments demo_second_order 0 3) = 200
   \<and> seller (sellOrders demo_second_order 0) = 3 \<and> seller (sellOrders demo_second_order 1) = 3
   \<and> order_propertyId (sellOrders demo_second_order 0) = 0
   \<and> order_propertyId (sellOrders demo_second_order 1) = 0
   \<and> order_isActive (sellOrders demo_second_order 0) \<and> order_isActive (sellOrders demo_second_order 1)
   \<and> tokensForSale (sellOrders demo_second_order 0) = 150
   \<and> tokensForSale (sellOrders demo_second_order 1) = 150
   \<and> buyFromOrder 4 5000 0 150 demo_second_order = Inr demo_filled
   \<and> purchaseTokens 3 6000 0 100 demo_filled = Inr demo_topped_up
   \<and> buyFromOrder 4 7000 1 150 demo_topped_up = Inr demo_both_filled
   \<and> tokensForSale (sellOrders demo_both_filled 0) = 0
   \<and> tokensForSale (sellOrders demo_both_filled 1) = 0
   \<and> \<not> order_isActive (sellOrders demo_both_filled 0)
   \<and> \<not> order_isActive (sellOrders demo_both_filled 1)"
proof -
  have before: "tokensOwned (investments demo_second_order 0 3) = 200
     \<and> seller (sellOrders demo_second_order 0) = 3 \<and> seller (sellOrders demo_second_order 1) = 3
     \<and> order_propertyId (sellOrders demo_second_order 0) = 0
     \<and> order_propertyId (sellOrders demo_second_order 1) = 0
     \<and> order_isActive (sellOrders demo_second_order 0) \<and> order_isActive (sellOrders demo_second_order 1)
     \<and> tokensForSale (sellOrders demo_second_order 0) = 150
     \<and> tokensForSale (sellOrders demo_second_order 1) = 150"
    by (simp add: demo_second_order_snapshot)
  have after: "tokensForSale (sellOrders demo_both_filled 0) = 0
     \<and> tokensForSale (sellOrders demo_both_filled 1) = 0
     \<and> \<not> order_isActive (sellOrders demo_both_filled 0)
     \<and> \<not> order_isActive (sellOrders demo_both_filled 1)"
    unfolding demo_both_filled_orders by simp
  show ?thesis
    using reachable_demo_second_order before demo_filled_run demo_topped_up_run
      demo_both_filled_run after
    by blast
qed

subsection \<open>The fee split\<close>

lemma fee_net_split: "fee \<le> C \<Longrightarrow> fee + (C - fee) = (C::nat)"
  by simp

lemma purchase_payment:
  assumes "purchaseTokens sender ts pid n s = Inr s'"
  shows "n * tokenPrice (properties s pid) * platformFeePercent s div 10000 +
          (n * tokenPrice (properties s pid) -
             n * tokenPrice (properties s pid) * platformFeePercent s div 10000)
          = n * tokenPrice (properties s pid)"
    and "int (balances (hrmToken s') a) = int (balances (hrmToken s) a)
           - (if a = sender then int (n * tokenPrice (properties s pid)) else 0)
           + (if a = feeRecipient s
              then int (n * tokenPrice (properties s pid) * platformFeePercent s div 10000) else 0)
           + (if a = propertyOwner (properties s pid)
              then int (n * tokenPrice (properties s pid) -
                     n * tokenPrice (properties s pid) * platformFeePercent s div 10000) else 0)"
proof -
  let ?C = "n * tokenPrice (properties s pid)"
  let ?fee = "?C * platformFeePercent s div 10000"
  from purchaseTokens_InrD[OF assms] obtain t3 where
    le: "?fee \<le> ?C" and pay: "token_payment sender ?C ?fee (?C - ?fee) (propertyOwner (properties s pid)) s = Inr t3"
    and t: "hrmToken s' = t3"
    by (auto simp: credited_def)
  show split: "?fee + (?C - ?fee) = ?C" using le by simp
  from token_payment_balances(1)[OF pay split, of a] t
  show "int (balances (hrmToken s') a) = int (balances (hrmToken s) a)
           - (if a = sender then int ?C else 0)
           + (if a = feeRecipient s then int ?fee else 0)
           + (if a = propertyOwner (properties s pid) then int (?C - ?fee) else 0)"
    by simp
qed

lemma fulfilment_payment:
  assumes "buyFromOrder sender ts oid n s = Inr s'"
  shows "n * pricePerToken (sellOrders s oid) * platformFeePercent s div 10000 +
          (n * pricePerToken (sellOrders s oid) -
             n * pricePerToken (sellOrders s oid) * platformFeePercent s div 10000)
          = n * pricePerToken (sellOrders s oid)"
    and "int (balances (hrmToken s') a) = int (balances (hrmToken s) a)
           - (if a = sender then int (n * pricePerToken (sellOrders s oid)) else 0)
           + (if a = feeRecipient s
              then int (n * pricePerToken (sellOrders s oid) * platformFeePercent s div 10000) else 0)
           + (if a = seller (sellOrders s oid)
              then int (n * pricePerToken (sellOrders s oid) -
                     n * pricePerToken (sellOrders s oid) * platformFeePercent s div 10000) else 0)"
proof -
  let ?C = "n * pricePerToken (sellOrders s oid)"
  let ?fee = "?C * platformFeePercent s div 10000"
  from buyFromOrder_InrD[OF assms] obtain t3 where
    le: "?fee \<le> ?C" and pay: "token_payment sender ?C ?fee (?C - ?fee) (seller (sellOrders s oid)) s = Inr t3"
    and t: "hrmToken s' = t3"
    by (auto simp: credited_def Let_def)
  show split: "?fee + (?C - ?fee) = ?C" using le by simp
  from token_payment_balances(1)[OF pay split, of a] t
  show "int (balances (hrmToken s') a) = int (balances (hrmToken s) a)
           - (if a = sender then int ?C else 0)
           + (if a = feeRecipient s then int ?fee else 0)
           + (if a = seller (sellOrders s oid) then int (?C - ?fee) else 0)"
    by simp
qed

text \<open>
  Claim C7, as the contract has it. For every successful \<open>purchaseTokens\<close> or
  \<open>buyFromOrder\<close> of total cost \<open>C\<close>, the fee is \<open>C * platformFeePercent / 10000\<close>
  rounded down, the net amount is \<open>C - fee\<close>, and \<open>fee + net = C\<close>. The token balance of
  every account changes by the sum over the roles it plays: minus \<open>C\<close> as the buyer,
  plus the fee as the fee recipient, plus the net amount as the property owner or
  seller. So a fee recipient who is neither buyer nor payee gains exactly the fee, and a
  payee who is neither buyer nor fee recipient gains exactly the net amount; the contract
  itself passes the money on and keeps nothing.
\<close>

theorem fee_split_by_role:
  "(purchaseTokens sender ts pid n s = Inr s' \<longrightarrow>
      n * tokenPrice (properties s pid) * platformFeePercent s div 10000 +
          (n * tokenPrice (properties s pid) -
             n * tokenPrice (properties s pid) * platformFeePercent s div 10000)
          = n * tokenPrice (properties s pid)
      \<and> (\<forall>a. int (balances (hrmToken s') a) = int (balances (hrmToken s) a)
           - (if a = sender then int (n * tokenPrice (properties s pid)) else 0)
           + (if a = feeRecipient s
              then int (n * tokenPrice (properties s pid) * platformFeePercent s div 10000) else 0)
           + (if a = propertyOwner (properties s pid)
              then int (n * tokenPrice (properties s pid) -
                     n * tokenPrice (properties s pid) * platformFeePercent s div 10000) else 0)))
   \<and> (buyFromOrder buyer ts2 oid m sb = Inr sb' \<longrightarrow>
      m * pricePerToken (sellOrders sb oid) * platformFeePercent sb div 10000 +
          (m * pricePerToken (sellOrders sb oid) -
             m * pricePerToken (sellOrders sb oid) * platformFeePercent sb div 10000)
          = m * pricePerToken (sellOrders sb oid)
      \<and> (\<forall>a. int (balances (hrmToken sb') a) = int (balances (hrmToken sb) a)
           - (if a = buyer then int (m * pricePerToken (sellOrders sb oid)) else 0)
           + (if a = feeRecipient sb
              then int (m * pricePerToken (sellOrders sb oid) * platformFeePercent sb div 10000) else 0)
           + (if a = seller (sellOrders sb oid)
              then int (m * pricePerToken (sellOrders sb oid) -
                     m * pricePerToken (sellOrders sb oid) * platformFeePercent sb div 10000) else 0)))"
  apply (intro conjI impI allI)
     apply (erule purchase_payment(1))
    apply (erule purchase_payment(2))
   apply (erule fulfilment_payment(1))
  apply (erule fulfilment_payment(2))
  done


lemma demo_owner_fee_sale_run: "purchaseTokens 3 2000 0 200 demo_owner_fee = Inr demo_owner_fee_sale"
  by (simp add: demo_owner_fee_sale_def demo_owner_fee_def setFeeRecipient_def demo_verified_snapshot
      run_defs arith_defs token_defs)

lemma demo_verified_payment:
  "tokenPrice (properties demo_verified 0) = 10 ^ 18" "platformFeePercent demo_verified = 250"
  "feeRecipient demo_verified = 9" "propertyOwner (properties demo_verified 0) = 2"
  by (simp_all add: demo_verified_snapshot)

lemma demo_owner_fee_payment:
  "tokenPrice (properties demo_owner_fee 0) = 10 ^ 18" "platformFeePercent demo_owner_fee = 250"
  "feeRecipient demo_owner_fee = 2" "propertyOwner (properties demo_owner_fee 0) = 2"
  by (simp_all add: demo_owner_fee_def setFeeRecipient_def storage_after_def demo_verified_snapshot)

lemma demo_second_order_payment:
  "pricePerToken (sellOrders demo_second_order 0) = 10" "platformFeePercent demo_second_order = 250"
  "feeRecipient demo_second_order = 9" "seller (sellOrders demo_second_order 0) = 3"
  by (simp_all add: demo_second_order_snapshot)

text \<open>
  The theorem on the deployment: the first purchase costs 200 HRM, of which the fee
  recipient gets 5 and the property owner 195; the filled order costs 1500 units, of
  which the fee recipient gets 37 and the seller 1463.
\<close>

theorem fee_split_by_role_witness:
  "int (balances (hrmToken demo_first_sale) 9) = int (balances (hrmToken demo_verified) 9) + 5 * 10 ^ 18
   \<and> int (balances (hrmToken demo_first_sale) 2) = int (balances (hrmToken demo_verified) 2) + 195 * 10 ^ 18
   \<and> int (balances (hrmToken demo_first_sale) 3) = int (balances (hrmToken demo_verified) 3) - 200 * 10 ^ 18
   \<and> int (balances (hrmToken demo_filled) 9) = int (balances (hrmToken demo_second_order) 9) + 37
   \<and> int (balances (hrmToken demo_filled) 3) = int (balances (hrmToken demo_second_order) 3) + 1463
   \<and> int (balances (hrmToken demo_filled) 4) = int (balances (hrmToken demo_second_order) 4) - 1500"
proof -
  note w = fee_split_by_role[where s=demo_verified and s'=demo_first_sale and sender=3 and ts=2000
      and pid=0 and n=200 and sb=demo_second_order and sb'=demo_filled and buyer=4 and ?ts2.0=5000
      and oid=0 and m=150]
  note p = w[THEN conjunct1, rule_format, OF demo_first_sale_run, THEN conjunct2, rule_format]
  note f = w[THEN conjunct2, rule_format, OF demo_filled_run, THEN conjunct2, rule_format]
  show ?thesis
    using p[of 9] p[of 2] p[of 3] f[of 9] f[of 3] f[of 4]
    by (simp add: demo_verified_payment demo_second_order_payment)
qed

text \<open>
  When the fee recipient is also the owner of the property, a successful purchase with a
  fee of 5 HRM raises the fee recipient's balance by the whole cost of 200 HRM.
\<close>

theorem fee_recipient_as_seller_counterexample:
  "purchaseTokens 3 2000 0 200 demo_owner_fee = Inr demo_owner_fee_sale
   \<and> 200 * tokenPrice (properties demo_owner_fee 0) * platformFeePercent demo_owner_fee div 10000 = 5 * 10 ^ 18
   \<and> balances (hrmToken demo_owner_fee_sale) (feeRecipient demo_owner_fee) =
       balances (hrmToken demo_owner_fee) (feeRecipient demo_owner_fee) + 200 * 10 ^ 18"
proof -
  note p = purchase_payment(2)[OF demo_owner_fee_sale_run]
  show ?thesis
    using p[of 2] demo_owner_fee_sale_run
    by (simp add: demo_owner_fee_payment)
qed

subsection \<open>When a purchase fails\<close>

lemma purchaseTokens_succeeds:
  assumes "pid < tokenIdCounter s" and "isActive (properties s pid)" and "0 < n"
    and "n \<le> availableTokens (properties s pid)"
    and "n * tokenPrice (properties s pid) < 2 ^ 256"
    and "MIN_INVESTMENT \<le> n * tokenPrice (properties s pid)"
    and "n * tokenPrice (properties s pid) \<le> balances (hrmToken s) sender"
    and "n * tokenPrice (properties s pid) * platformFeePercent s < 2 ^ 256"
    and "n * tokenPrice (properties s pid) * platformFeePercent s div 10000 \<le> n * tokenPrice (properties s pid)"
    and "tokensOwned (investments s pid sender) + n < 2 ^ 256"
    and "investmentAmount (investments s pid sender) +
        (n * tokenPrice (properties s pid) - n * tokenPrice (properties s pid) * platformFeePercent s div 10000) < 2 ^ 256"
    and "\<not> isl (token_payment sender (n * tokenPrice (properties s pid))
              (n * tokenPrice (properties s pid) * platformFeePercent s div 10000)
              (n * tokenPrice (properties s pid) - n * tokenPrice (properties s pid) * platformFeePercent s div 10000)
              (propertyOwner (properties s pid)) s)"
  shows "\<not> isl (purchaseTokens sender ts pid n s)"
proof -
  from assms(12) obtain t3 where
    "token_payment sender (n * tokenPrice (properties s pid))
              (n * tokenPrice (properties s pid) * platformFeePercent s div 10000)
              (n * tokenPrice (properties s pid) - n * tokenPrice (properties s pid) * platformFeePercent s div 10000)
              (propertyOwner (properties s pid)) s = Inr t3"
    by (auto simp: not_isl_iff)
  then show ?thesis
    using assms(1-11)
    by (simp add: purchaseTokens_def Let_def checked_add_def checked_sub_def checked_mul_def
        UINT256_LIMIT_def credit_investment_def then_do_simps)
qed

lemma purchaseTokens_ok_iff:
  assumes "storage_inv s" and "sender \<noteq> 0"
  shows "\<not> isl (purchaseTokens sender ts pid n s) \<longleftrightarrow>
     isActive (properties s pid) \<and> n \<le> availableTokens (properties s pid) \<and>
     MIN_INVESTMENT \<le> n * tokenPrice (properties s pid) \<and>
     n * tokenPrice (properties s pid) \<le> balances (hrmToken s) sender \<and>
     \<not> paused (hrmToken s) \<and>
     (allowances (hrmToken s) sender (this s) \<noteq> 2 ^ 256 - 1 \<longrightarrow>
        n * tokenPrice (properties s pid) \<le> allowances (hrmToken s) sender (this s)) \<and>
     feeRecipient s \<noteq> 0 \<and>
     n * tokenPrice (properties s pid) < 2 ^ 256 \<and>
     n * tokenPrice (properties s pid) * platformFeePercent s < 2 ^ 256 \<and>
     tokensOwned (investments s pid sender) + n < 2 ^ 256 \<and>
     investmentAmount (investments s pid sender) +
        (n * tokenPrice (properties s pid) - n * tokenPrice (properties s pid) * platformFeePercent s div 10000) < 2 ^ 256"
    (is "?L \<longleftrightarrow> ?R")
proof
  let ?C = "n * tokenPrice (properties s pid)"
  let ?fee = "?C * platformFeePercent s div 10000"
  assume ?L
  then obtain s' where run: "purchaseTokens sender ts pid n s = Inr s'" by (auto simp: not_isl_iff)
  note D = purchaseTokens_InrD[OF run]
  from D obtain t3 where pay: "token_payment sender ?C ?fee (?C - ?fee) (propertyOwner (properties s pid)) s = Inr t3"
    by auto
  have split: "?fee + (?C - ?fee) = ?C" using D by simp
  from pay have "\<not> isl (token_payment sender ?C ?fee (?C - ?fee) (propertyOwner (properties s pid)) s)"
    by simp
  note ok = this[unfolded token_payment_ok_iff[OF split]]
  show ?R using D ok by (simp del: add_diff_assoc add_diff_assoc2 diff_add_assoc diff_add_assoc2 Nat.add_diff_assoc Nat.add_diff_assoc2)
next
  let ?C = "n * tokenPrice (properties s pid)"
  let ?fee = "?C * platformFeePercent s div 10000"
  assume r: ?R
  have inv: "this s \<noteq> 0" "platformFeePercent s \<le> 1000"
    "isActive (properties s pid) \<Longrightarrow> pid < tokenIdCounter s"
    "pid < tokenIdCounter s \<Longrightarrow> propertyOwner (properties s pid) \<noteq> 0"
    using assms(1) by (auto simp: storage_inv_def)
  have ex: "pid < tokenIdCounter s" using r inv(3) by simp
  have pos: "0 < n"
  proof (rule ccontr)
    assume "\<not> 0 < n"
    then have z: "n = 0" by simp
    have "MIN_INVESTMENT \<le> n * tokenPrice (properties s pid)" using r by blast
    then show False unfolding z by (simp add: MIN_INVESTMENT_def)
  qed
  have "?C * platformFeePercent s \<le> ?C * 1000" using inv(2) by simp
  then have "?fee \<le> ?C * 1000 div 10000" by (rule div_le_mono)
  also have "\<dots> \<le> ?C" by simp
  finally have fee: "?fee \<le> ?C" .
  then have split: "?fee + (?C - ?fee) = ?C" by simp
  have pay: "\<not> isl (token_payment sender ?C ?fee (?C - ?fee) (propertyOwner (properties s pid)) s)"
    unfolding token_payment_ok_iff[OF split]
    using r assms(2) inv(1) inv(4)[OF ex] by simp
  show ?L
    by (rule purchaseTokens_succeeds) (use r ex pos fee pay in simp_all)
qed

lemma isl_storage_after: "isl r \<Longrightarrow> storage_after s r = s"
  by (cases r) (simp_all add: storage_after_def)

text \<open>
  Claim C2, as the contract has it. In a storage the contract can reach and for a caller
  other than the zero address, \<open>purchaseTokens\<close> fails exactly when the property is
  inactive (which includes a property that does not exist), the share count exceeds
  \<open>availableTokens\<close>, the cost \<open>tokens * tokenPrice\<close> is below \<open>MIN_INVESTMENT\<close> (which
  includes a share count of zero), the buyer's token balance is below the cost, the token
  is paused, the buyer's allowance for the contract is below the cost (unless it is the
  unlimited allowance), the fee recipient is the zero address, or one of the checked
  \<open>uint256\<close> computations overflows (the cost, the cost times the fee rate, the buyer's
  new share count, the buyer's new cumulative amount). Whenever it fails, the storage of
  both contracts, hence every balance, property and holding, is what it was.
\<close>

theorem purchaseTokens_failure_conditions:
  assumes "reachable s" and "sender \<noteq> 0"
  shows "(isl (purchaseTokens sender ts pid n s) \<longleftrightarrow>
       \<not> isActive (properties s pid)
     \<or> availableTokens (properties s pid) < n
     \<or> n * tokenPrice (properties s pid) < MIN_INVESTMENT
     \<or> balances (hrmToken s) sender < n * tokenPrice (properties s pid)
     \<or> paused (hrmToken s)
     \<or> (allowances (hrmToken s) sender (this s) \<noteq> 2 ^ 256 - 1 \<and>
          allowances (hrmToken s) sender (this s) < n * tokenPrice (properties s pid))
     \<or> feeRecipient s = 0
     \<or> 2 ^ 256 \<le> n * tokenPrice (properties s pid)
     \<or> 2 ^ 256 \<le> n * tokenPrice (properties s pid) * platformFeePercent s
     \<or> 2 ^ 256 \<le> tokensOwned (investments s pid sender) + n
     \<or> 2 ^ 256 \<le> investmentAmount (investments s pid sender) +
          (n * tokenPrice (properties s pid) -
             n * tokenPrice (properties s pid) * platformFeePercent s div 10000))
   \<and> (isl (purchaseTokens sender ts pid n s) \<longrightarrow>
        storage_after s (purchaseTokens sender ts pid n s) = s)"
proof -
  note ok = purchaseTokens_ok_iff[OF reachable_storage_inv[OF assms(1)] assms(2), of ts pid n]
  have "isl (purchaseTokens sender ts pid n s) \<longleftrightarrow> \<not> \<not> isl (purchaseTokens sender ts pid n s)"
    by simp
  also note ok
  finally have a: "isl (purchaseTokens sender ts pid n s) \<longleftrightarrow>
       \<not> isActive (properties s pid)
     \<or> availableTokens (properties s pid) < n
     \<or> n * tokenPrice (properties s pid) < MIN_INVESTMENT
     \<or> balances (hrmToken s) sender < n * tokenPrice (properties s pid)
     \<or> paused (hrmToken s)
     \<or> (allowances (hrmToken s) sender (this s) \<noteq> 2 ^ 256 - 1 \<and>
          allowances (hrmToken s) sender (this s) < n * tokenPrice (properties s pid))
     \<or> feeRecipient s = 0
     \<or> 2 ^ 256 \<le> n * tokenPrice (properties s pid)
     \<or> 2 ^ 256 \<le> n * tokenPrice (properties s pid) * platformFeePercent s
     \<or> 2 ^ 256 \<le> tokensOwned (investments s pid sender) + n
     \<or> 2 ^ 256 \<le> investmentAmount (investments s pid sender) +
          (n * tokenPrice (properties s pid) -
             n * tokenPrice (properties s pid) * platformFeePercent s div 10000)"
    by (simp only: de_Morgan_conj not_le not_less not_not not_imp) 
  show ?thesis
    by (intro conjI impI) (rule a, erule isl_storage_after)
qed

lemma reachable_demo_unapproved: "reachable demo_unapproved"
  unfolding demo_unapproved_def by (rule r_token[OF reachable_demo_verified])

lemma demo_verified_sale_facts:
  "isActive (properties demo_verified 0)" "availableTokens (properties demo_verified 0) = 1000"
  "balances (hrmToken demo_verified) 3 = 1000 * 10 ^ 18"
  "allowances (hrmToken demo_verified) 3 (this demo_verified) = 1000 * 10 ^ 18"
  "\<not> paused (hrmToken demo_verified)"
  "tokensOwned (investments demo_verified 0 3) = 0" "investmentAmount (investments demo_verified 0 3) = 0"
  by (simp_all add: demo_verified_snapshot)

text \<open>
  The theorem on the deployment: the purchase of 200 shares succeeds on the verified
  property, and fails, changing nothing, once the buyer's approval is gone.
\<close>

theorem purchaseTokens_failure_conditions_witness:
  "\<not> isl (purchaseTokens 3 2000 0 200 demo_verified)
   \<and> isl (purchaseTokens 3 2000 0 200 demo_unapproved)
   \<and> storage_after demo_unapproved (purchaseTokens 3 2000 0 200 demo_unapproved) = demo_unapproved"
proof -
  have three: "(3::nat) \<noteq> 0" by simp
  note w1 = purchaseTokens_failure_conditions[OF reachable_demo_verified three, of 2000 0 200, THEN conjunct1]
  note w2 = purchaseTokens_failure_conditions[OF reachable_demo_unapproved three, of 2000 0 200]
  have ok: "\<not> isl (purchaseTokens 3 2000 0 200 demo_verified)"
    unfolding w1
    by (simp add: demo_verified_sale_facts demo_verified_payment MIN_INVESTMENT_def)
  have "allowances (hrmToken demo_unapproved) 3 (this demo_unapproved) = 0"
       "tokenPrice (properties demo_unapproved 0) = 10 ^ 18"
    by (simp_all add: demo_unapproved_def demo_verified_payment)
  then have fails: "isl (purchaseTokens 3 2000 0 200 demo_unapproved)"
    unfolding w2[THEN conjunct1] by simp
  from w2[THEN conjunct2] fails ok show ?thesis by blast
qed

text \<open>
  None of the four listed conditions holds, and the purchase fails: the property is
  active, 200 shares are available, the cost is above the minimum and within the buyer's
  balance, but the buyer has not approved the contract.
\<close>

theorem purchase_without_allowance_counterexample:
  "isActive (properties demo_unapproved 0)
   \<and> 200 \<le> availableTokens (properties demo_unapproved 0)
   \<and> MIN_INVESTMENT \<le> 200 * tokenPrice (properties demo_unapproved 0)
   \<and> 200 * tokenPrice (properties demo_unapproved 0) \<le> balances (hrmToken demo_unapproved) 3
   \<and> purchaseTokens 3 2000 0 200 demo_unapproved = Inl (Revert ''ERC20: insufficient allowance'')"
  by (simp add: demo_unapproved_def demo_verified_snapshot demo_token_def run_defs arith_defs token_defs)

subsection \<open>Processing an insurance claim\<close>

lemma processClaim_not_pending:
  "status (insuranceClaims d claimId) \<noteq> PENDING \<Longrightarrow> isl (processClaim sender claimId st amount d)"
  by (simp add: processClaim_def Let_def)

lemma processClaim_approved:
  assumes "sender = dm_owner d" and "0 < claimId" and "claimId \<le> insuranceClaimCount d"
    and "status (insuranceClaims d claimId) = PENDING" and "0 < amount"
  shows "processClaim sender claimId APPROVED amount d =
     (if insuranceFund d < amount then Inl (Revert ''Insufficient insurance fund'')
      else then_do (transfer (dm_this d) (claimant (insuranceClaims d claimId)) amount (dm_hrmToken d))
        (\<lambda>t1. Inr (d\<lparr>dm_hrmToken := t1, insuranceFund := insuranceFund d - amount,
                      insuranceClaims := (insuranceClaims d)(claimId :=
                        (insuranceClaims d claimId)\<lparr>approvedAmount := amount, status := PAID\<rparr>)\<rparr>)))"
  using assms
  by (cases "transfer (dm_this d) (claimant (insuranceClaims d claimId)) amount (dm_hrmToken d)")
     (simp_all add: processClaim_def Let_def then_do_simps checked_sub_def)

text \<open>
  Claim C6, as the contract has it. For a pending claim, \<open>processClaim\<close> called by the
  owner with status \<open>APPROVED\<close> and a positive amount fails when the insurance fund is
  below the amount; when the fund suffices it fails exactly when the token refuses the
  transfer from the contract to the claimant; and when it succeeds the claim is \<open>PAID\<close>
  (not \<open>APPROVED\<close>) with the approved amount recorded, the fund is smaller by exactly the
  amount, and the token has moved exactly the amount from the contract to the claimant.
  \<open>processClaim\<close> on a claim that is not pending always fails.
\<close>

theorem processClaim_approved_pays_or_reverts:
  assumes "sender = dm_owner d" and "0 < claimId" and "claimId \<le> insuranceClaimCount d"
    and "status (insuranceClaims d claimId) = PENDING" and "0 < amount"
  shows "(insuranceFund d < amount \<longrightarrow> isl (processClaim sender claimId APPROVED amount d))
     \<and> (amount \<le> insuranceFund d \<longrightarrow>
          (isl (processClaim sender claimId APPROVED amount d) \<longleftrightarrow>
             isl (transfer (dm_this d) (claimant (insuranceClaims d claimId)) amount (dm_hrmToken d))))
     \<and> (\<forall>d'. processClaim sender claimId APPROVED amount d = Inr d' \<longrightarrow>
          status (insuranceClaims d' claimId) = PAID
          \<and> approvedAmount (insuranceClaims d' claimId) = amount
          \<and> insuranceFund d' + amount = insuranceFund d
          \<and> (\<forall>a. int (balances (dm_hrmToken d') a) = int (balances (dm_hrmToken d) a)
                - (if a = dm_this d then int amount else 0)
                + (if a = claimant (insuranceClaims d claimId) then int amount else 0)))
     \<and> (status (insuranceClaims d2 cid) \<noteq> PENDING \<longrightarrow>
          isl (processClaim caller cid st amt d2))"
proof (intro conjI impI allI)
  note eq = processClaim_approved[OF assms]
  show "isl (processClaim sender claimId APPROVED amount d)" if "insuranceFund d < amount"
    using that by (simp add: eq)
  show "isl (processClaim sender claimId APPROVED amount d) \<longleftrightarrow>
          isl (transfer (dm_this d) (claimant (insuranceClaims d claimId)) amount (dm_hrmToken d))"
    if "amount \<le> insuranceFund d"
    using that by (simp add: eq isl_then_do)
  fix d' assume run: "processClaim sender claimId APPROVED amount d = Inr d'"
  then have fund: "amount \<le> insuranceFund d" by (simp add: eq split: if_splits)
  with run obtain t1 where
    tr: "transfer (dm_this d) (claimant (insuranceClaims d claimId)) amount (dm_hrmToken d) = Inr t1"
    and d': "d' = d\<lparr>dm_hrmToken := t1, insuranceFund := insuranceFund d - amount,
                      insuranceClaims := (insuranceClaims d)(claimId :=
                        (insuranceClaims d claimId)\<lparr>approvedAmount := amount, status := PAID\<rparr>)\<rparr>"
    by (auto simp: eq then_do_Inr_iff)
  show "status (insuranceClaims d' claimId) = PAID" by (simp add: d')
  show "approvedAmount (insuranceClaims d' claimId) = amount" by (simp add: d')
  show "insuranceFund d' + amount = insuranceFund d" using fund by (simp add: d')
  show "int (balances (dm_hrmToken d') a) = int (balances (dm_hrmToken d) a)
                - (if a = dm_this d then int amount else 0)
                + (if a = claimant (insuranceClaims d claimId) then int amount else 0)" for a
    using transfer_balances[OF tr, of a] by (simp add: d')
next
  assume "status (insuranceClaims d2 cid) \<noteq> PENDING"
  then show "isl (processClaim caller cid st amt d2)" by (rule processClaim_not_pending)
qed

text \<open>
  The theorem on a fund of 1000: approving 500 pays account 5 and leaves a fund of 500
  and a paid claim, approving 1001 fails, and the paid claim cannot be processed again.
\<close>

theorem processClaim_approved_pays_or_reverts_witness:
  "\<not> isl (processClaim 1 1 APPROVED 500 dm_demo)
   \<and> status (insuranceClaims (storage_after dm_demo (processClaim 1 1 APPROVED 500 dm_demo)) 1) = PAID
   \<and> insuranceFund (storage_after dm_demo (processClaim 1 1 APPROVED 500 dm_demo)) = 500
   \<and> balances (dm_hrmToken (storage_after dm_demo (processClaim 1 1 APPROVED 500 dm_demo))) 5 = 500
   \<and> isl (processClaim 1 1 APPROVED 1001 dm_demo)
   \<and> isl (processClaim 1 1 REJECTED 0 (storage_after dm_demo (processClaim 1 1 APPROVED 500 dm_demo)))"
proof -
  have h: "(1::nat) = dm_owner dm_demo" "(0::nat) < 1" "1 \<le> insuranceClaimCount dm_demo"
    "status (insuranceClaims dm_demo 1) = PENDING"
    by (simp_all add: dm_demo_def)
  have five: "(0::nat) < 500" and big: "(0::nat) < 1001" by simp_all
  note v = processClaim_approved_pays_or_reverts[OF h big, THEN conjunct1]
  have ok: "\<not> isl (processClaim 1 1 APPROVED 500 dm_demo)"
    using processClaim_approved_pays_or_reverts[OF h five, THEN conjunct2, THEN conjunct1]
    by (simp add: dm_demo_def transfer_ok_iff[simplified])
  then obtain d' where run: "processClaim 1 1 APPROVED 500 dm_demo = Inr d'"
    by (auto simp: not_isl_iff)
  note w = processClaim_approved_pays_or_reverts[OF h five, where ?d2.0=d' and cid=1 and caller=1
      and st=REJECTED and amt=0]
  note eff = w[THEN conjunct2, THEN conjunct2, THEN conjunct1, rule_format, OF run]
  note bal = eff[THEN conjunct2, THEN conjunct2, THEN conjunct2, rule_format, of 5]
  have paid: "status (insuranceClaims d' 1) = PAID" using eff by simp
  have fund: "insuranceFund d' = 500" using eff by (simp add: dm_demo_def)
  have got: "balances (dm_hrmToken d') 5 = 500" using bal by (simp add: dm_demo_def)
  have again: "isl (processClaim 1 1 REJECTED 0 d')"
    using w[THEN conjunct2, THEN conjunct2, THEN conjunct2] paid by simp
  have short: "isl (processClaim 1 1 APPROVED 1001 dm_demo)"
    using v by (simp add: dm_demo_def)
  have sa: "storage_after dm_demo (processClaim 1 1 APPROVED 500 dm_demo) = d'"
    unfolding run storage_after_def by simp
  show ?thesis unfolding sa using ok paid fund got again short by blast
qed

text \<open>
  A pending claim and a fund of 1000: approving 500 fails when the token is paused.
\<close>

theorem processClaim_paused_token_counterexample:
  "status (insuranceClaims dm_demo_paused 1) = PENDING
   \<and> 500 \<le> insuranceFund dm_demo_paused
   \<and> processClaim 1 1 APPROVED 500 dm_demo_paused = Inl (Revert ''Pausable: paused'')"
  by (simp add: dm_demo_paused_def dm_demo_def processClaim_def Let_def token_defs then_do_simps)

subsection \<open>Governance quorum\<close>

text \<open>
  Claim C5, as the contract has it. \<open>executeProposal\<close>, called after the voting window
  has ended on a proposal that exists and is not yet executed, and with a tally and a
  total supply small enough for the checked arithmetic, sets \<open>executed\<close> and sets
  \<open>passed\<close> to: the votes cast reach the quorum and the votes for exceed the votes
  against, where the quorum is \<open>QUORUM_PERCENTAGE = 20\<close> percent of the total supply
  (\<open>totalSupply * 20 / 100\<close>). With a total supply of 1,000,000 the quorum is 200,000:
  a tally of 60,000 to 20,000 does not pass, 90,000 to 20,000 does not pass either,
  and 190,000 to 20,000 passes.
\<close>

theorem executeProposal_quorum:
  assumes "0 < pid" "pid \<le> proposalCount g" "endTime (proposals g pid) < now" "\<not> executed (proposals g pid)"
      "votesFor (proposals g pid) + votesAgainst (proposals g pid) < UINT256_LIMIT"
      "totalSupply t * 20 < UINT256_LIMIT"
  shows "executeProposal t now pid g =
     Inr (g\<lparr>proposals := (proposals g)(pid := (proposals g pid)\<lparr>executed := True,
        passed := (votesFor (proposals g pid) + votesAgainst (proposals g pid) \<ge> totalSupply t * 20 div 100
                    \<and> votesFor (proposals g pid) > votesAgainst (proposals g pid))\<rparr>)\<rparr>)
     \<and> passed (proposals (storage_after (tallied_proposal 60000 20000) (executeProposal (token_with_supply 1000000) 101 1 (tallied_proposal 60000 20000))) 1) = False
     \<and> passed (proposals (storage_after (tallied_proposal 90000 20000) (executeProposal (token_with_supply 1000000) 101 1 (tallied_proposal 90000 20000))) 1) = False
     \<and> passed (proposals (storage_after (tallied_proposal 190000 20000) (executeProposal (token_with_supply 1000000) 101 1 (tallied_proposal 190000 20000))) 1) = True"
  using assms
  by (simp add: executeProposal_def arith_defs QUORUM_PERCENTAGE_def Let_def storage_after_def tallied_proposal_def token_with_supply_def)

text \<open>The theorem at the proposal with 190,000 votes for and 20,000 against.\<close>

theorem executeProposal_quorum_witness:
  "executeProposal (token_with_supply 1000000) 101 1 (tallied_proposal 190000 20000) =
     Inr ((tallied_proposal 190000 20000)\<lparr>proposals := (proposals (tallied_proposal 190000 20000))
        (1 := (proposals (tallied_proposal 190000 20000) 1)\<lparr>executed := True, passed := True\<rparr>)\<rparr>)"
  using executeProposal_quorum [of 1 "tallied_proposal 190000 20000" 101 "token_with_supply 1000000", THEN conjunct1]
  by (simp add: tallied_proposal_def token_with_supply_def UINT256_LIMIT_def)

text \<open>
  The claim's second example under a quorum of ten percent (1000 basis points): 110,000
  votes are cast, which is at least 100,000, and the votes for exceed the votes against,
  yet the executed proposal has not passed.
\<close>

theorem executeProposal_ten_percent_counterexample:
  "executed (proposals (storage_after (tallied_proposal 90000 20000) (executeProposal (token_with_supply 1000000) 101 1 (tallied_proposal 90000 20000))) 1)
   \<and> \<not> passed (proposals (storage_after (tallied_proposal 90000 20000) (executeProposal (token_with_supply 1000000) 101 1 (tallied_proposal 90000 20000))) 1)
   \<and> 1000000 * 1000 div 10000 \<le> votesFor (proposals (tallied_proposal 90000 20000) 1) + votesAgainst (proposals (tallied_proposal 90000 20000) 1)
   \<and> votesAgainst (proposals (tallied_proposal 90000 20000) 1) < votesFor (proposals (tallied_proposal 90000 20000) 1)"
  by (simp add: executeProposal_def arith_defs QUORUM_PERCENTAGE_def Let_def storage_after_def tallied_proposal_def token_with_supply_def)

subsection \<open>Pausing the token\<close>

text \<open>
  Claim C4, as the contract has it. While the pause flag is set, every \<open>transfer\<close>,
  \<open>transferFrom\<close>, \<open>mint\<close> and \<open>burn\<close> call fails, because each of them runs the
  \<open>_beforeTokenTransfer\<close> hook that carries \<open>whenNotPaused\<close>; \<open>approve\<close> does not run
  the hook and does exactly what it does when the flag is clear: it fails for a zero
  owner or spender and stores the allowance otherwise.
\<close>

theorem pause_blocks_every_balance_change:
  assumes "paused t"
  shows "isl (transfer sender to amount t) \<and> isl (transferFrom sender from to amount t)
       \<and> isl (mint to amount t) \<and> isl (burn sender amount t)
       \<and> approve sender spender amount t = 
          (if sender = 0 then Inl (Revert ''ERC20: approve from the zero address'')
           else if spender = 0 then Inl (Revert ''ERC20: approve to the zero address'')
           else Inr (t\<lparr>allowances := (allowances t)(sender := (allowances t sender)(spender := amount))\<rparr>))"
  using assms by (simp add: token_defs arith_defs Let_def)

text \<open>The theorem at a paused token holding 1000 units.\<close>

theorem pause_blocks_every_balance_change_witness:
  "isl (transfer 1 2 10 ((token_with_supply 1000)\<lparr>paused := True\<rparr>))
   \<and> isl (mint 2 10 ((token_with_supply 1000)\<lparr>paused := True\<rparr>))
   \<and> \<not> isl (approve 1 2 10 ((token_with_supply 1000)\<lparr>paused := True\<rparr>))"
  using pause_blocks_every_balance_change [of "(token_with_supply 1000)\<lparr>paused := True\<rparr>" 1 2 10 1 2]
  by (simp add: token_with_supply_def)

text \<open>
  A mint of 10 units and a burn of 10 units that both succeed on the running token fail
  on the same token once it is paused.
\<close>

theorem pause_blocks_mint_and_burn_counterexample:
  "\<not> isl (mint 2 10 (token_with_supply 1000)) \<and> \<not> isl (burn 1 10 (token_with_supply 1000))
   \<and> mint 2 10 ((token_with_supply 1000)\<lparr>paused := True\<rparr>) = Inl (Revert ''Pausable: paused'')
   \<and> burn 1 10 ((token_with_supply 1000)\<lparr>paused := True\<rparr>) = Inl (Revert ''Pausable: paused'')"
  by (simp add: token_defs arith_defs Let_def token_with_supply_def MAX_SUPPLY_def)

end
